theory Spec2Isabelle
  imports Main "HOL-Library.Word"
begin

unbundle bit_operations_syntax

section \<open>Machine types and host values\<close>

text \<open>
  The bindings are C++ against Node-API. Fixed-width integers are words (\<open>sint\<close> reads
  an \<open>int32_t\<close>); a pointer is a 64-bit word with \<open>0\<close> for \<open>nullptr\<close>; a \<open>double\<close> is
  kept as its IEEE-754 binary64 bit pattern, since the bindings only copy doubles and
  convert integers to them.
\<close>

type_synonym uint8 = "8 word"
type_synonym int32 = "32 word"
type_synonym uint32 = "32 word"
type_synonym double = "64 word"
type_synonym pointer = "64 word"

text \<open>
  A host (JavaScript) value. An object is its list of properties in insertion order; a
  function is named by a number. Arrays, buffers and functions carry no further named
  properties in this model.
\<close>

datatype napi_value =
    JUndefined
  | JNull
  | JBoolean bool
  | JNumber double
  | JString string
  | JBuffer "uint8 list"
  | JArray "napi_value list"
  | JObject "(string \<times> napi_value) list"
  | JFunction nat

text \<open>A pending host exception: \<open>Napi::TypeError\<close> or \<open>Napi::Error\<close> with its message.\<close>

datatype napi_error = TypeError string | Error string

text \<open>
  Number of binary digits of a natural number, used to place the exponent when an integer
  is converted to a double.
\<close>

fun bit_length :: "nat \<Rightarrow> nat" where
  "bit_length n = (if n = 0 then 0 else Suc (bit_length (n div 2)))"

declare bit_length.simps [simp del]

text \<open>
  The implicit C++ conversion of an integer to \<open>double\<close>, as in
  \<open>Napi::Number::New(env, event.type)\<close> and the literals \<open>0\<close>, \<open>200\<close>, \<open>1.0\<close>.
  With \<open>e\<close> the position of the leading bit, the biased exponent \<open>1023 + e\<close> sits
  above the 52 fraction bits and the fraction is the rest of the integer, shifted up; the
  sign is bit 63. It is exact for every magnitude below \<open>2 ^ 53\<close>, which covers
  \<open>int32_t\<close> and \<open>uint32_t\<close>; the definition is only meant for that range.
\<close>

definition double_of_nat :: "nat \<Rightarrow> double" where
  "double_of_nat n =
     (if n = 0 then 0
      else let e = bit_length n - 1
           in of_nat ((1023 + e) * 2 ^ 52 + (n * 2 ^ (52 - e) - 2 ^ 52)))"

definition double_of_int :: "int \<Rightarrow> double" where
  "double_of_int i =
     (if i < 0 then 2 ^ 63 + double_of_nat (nat (- i)) else double_of_nat (nat i))"

section \<open>The event record and the wrapper\<close>

text \<open>
  \<open>struct AudioEvent\<close>. The callbacks declare \<open>AudioEvent event;\<close> and assign only the
  fields of their own variant; a scalar member that was never assigned is \<open>None\<close> here
  (the two strings and the vector are default-constructed empty).
\<close>

record AudioEvent =
  type :: int32
  data :: "uint8 list"
  message :: string
  sampleRate :: "double option"
  channelsPerFrame :: "uint32 option"
  bitsPerChannel :: "uint32 option"
  isFloat :: "bool option"
  encoding :: string

text \<open>
  The data members of \<open>AudioTeeWrapper\<close>, named without the trailing underscore of
  the source; \<open>AudioRecorderWrapper\<close> declares the same members and the same queue,
  callback and destructor code. \<open>eventQueue\<close> is the
  \<open>std::queue\<close> with its front at the head of the list. \<open>eventMutex\<close> is held for the
  whole body of \<open>QueueEvent\<close> and of \<open>DrainEvents\<close>, so each of them is one atomic
  state change.
\<close>

record AudioTeeWrapper =
  handle :: pointer
  eventQueue :: "AudioEvent list"
  isDestroyed :: bool

type_synonym AudioRecorderWrapper = AudioTeeWrapper

text \<open>
  The constructor: the handle is what \<open>audiotee_create\<close> returned; a null handle throws
  \<open>Failed to create AudioTee session\<close>. The queue starts empty and the flag cleared.
\<close>

definition AudioTeeWrapper_new :: "pointer \<Rightarrow> napi_error + AudioTeeWrapper" where
  "AudioTeeWrapper_new h =
     (if h = 0 then Inl (Error ''Failed to create AudioTee session'')
      else Inr \<lparr>handle = h, eventQueue = [], isDestroyed = False\<rparr>)"

subsection \<open>Queue management\<close>

definition QueueEvent :: "AudioEvent \<Rightarrow> AudioTeeWrapper \<Rightarrow> AudioTeeWrapper" where
  "QueueEvent event w = w\<lparr>eventQueue := eventQueue w @ [event]\<rparr>"

text \<open>
  The loop of \<open>DrainEvents\<close>: while the queue is not empty, push its front to the back of
  \<open>events\<close> and pop it. The result is the queue and the vector at loop exit.
\<close>

fun drain_loop :: "AudioEvent list \<Rightarrow> AudioEvent list \<Rightarrow> AudioEvent list \<times> AudioEvent list" where
  "drain_loop [] events = ([], events)"
| "drain_loop (front # rest) events = drain_loop rest (events @ [front])"

definition DrainEvents :: "AudioTeeWrapper \<Rightarrow> AudioEvent list \<times> AudioTeeWrapper" where
  "DrainEvents w =
     (let (q, events) = drain_loop (eventQueue w) []
      in (events, w\<lparr>eventQueue := q\<rparr>))"

subsection \<open>Callbacks from the capture session\<close>

text \<open>
  \<open>OnData\<close> receives a pointer and a length; \<open>buf\<close> is the bytes readable at the
  pointer. \<open>event.data.assign(data, data + length)\<close> copies the first \<open>length\<close> of them.
  The source has undefined behaviour for a negative length or one beyond the buffer; the
  theorems below use \<open>OnData\<close> only where the flag is set or the length is within the
  buffer.
\<close>

definition data_event :: "uint8 list \<Rightarrow> int32 \<Rightarrow> AudioEvent" where
  "data_event buf len =
     \<lparr>type = 0, data = take (nat (sint len)) buf, message = [],
      sampleRate = None, channelsPerFrame = None, bitsPerChannel = None,
      isFloat = None, encoding = []\<rparr>"

definition OnData :: "uint8 list \<Rightarrow> int32 \<Rightarrow> AudioTeeWrapper \<Rightarrow> AudioTeeWrapper" where
  "OnData buf len self =
     (if isDestroyed self then self else QueueEvent (data_event buf len) self)"

text \<open>
  \<open>OnEvent\<close>: the session's event type is shifted by one (\<open>0\<close> is reserved for data); a
  null \<open>message\<close> leaves the string empty. The session sends the types 0, 1 and 2; the
  addition is written on words, where the source's \<open>int32_t\<close> addition is undefined at
  the largest value.
\<close>

definition lifecycle_event :: "int32 \<Rightarrow> string option \<Rightarrow> AudioEvent" where
  "lifecycle_event eventType msg =
     \<lparr>type = eventType + 1, data = [],
      message = (case msg of None \<Rightarrow> [] | Some m \<Rightarrow> m),
      sampleRate = None, channelsPerFrame = None, bitsPerChannel = None,
      isFloat = None, encoding = []\<rparr>"

definition OnEvent :: "int32 \<Rightarrow> string option \<Rightarrow> AudioTeeWrapper \<Rightarrow> AudioTeeWrapper" where
  "OnEvent eventType msg self =
     (if isDestroyed self then self else QueueEvent (lifecycle_event eventType msg) self)"

definition metadata_event ::
  "double \<Rightarrow> uint32 \<Rightarrow> uint32 \<Rightarrow> bool \<Rightarrow> string option \<Rightarrow> AudioEvent" where
  "metadata_event rate channels bits isflt enc =
     \<lparr>type = 4, data = [], message = [],
      sampleRate = Some rate, channelsPerFrame = Some channels, bitsPerChannel = Some bits,
      isFloat = Some isflt, encoding = (case enc of None \<Rightarrow> [] | Some s \<Rightarrow> s)\<rparr>"

definition OnMetadata ::
  "double \<Rightarrow> uint32 \<Rightarrow> uint32 \<Rightarrow> bool \<Rightarrow> string option \<Rightarrow> AudioTeeWrapper \<Rightarrow> AudioTeeWrapper" where
  "OnMetadata rate channels bits isflt enc self =
     (if isDestroyed self then self
      else QueueEvent (metadata_event rate channels bits isflt enc) self)"

subsection \<open>ProcessEvents\<close>

text \<open>
  One host object per drained event: \<open>type\<close> always, then the fields of the variant. A
  scalar that the producing callback never assigned is read indeterminate by the source;
  the model delivers \<open>JUndefined\<close> for it.
\<close>

definition number_or_undefined :: "double option \<Rightarrow> napi_value" where
  "number_or_undefined d = (case d of None \<Rightarrow> JUndefined | Some x \<Rightarrow> JNumber x)"

definition event_object :: "AudioEvent \<Rightarrow> napi_value" where
  "event_object event =
     JObject ((''type'', JNumber (double_of_int (sint (type event)))) #
       (if type event = 0 then [(''data'', JBuffer (data event))]
        else if type event = 1 \<or> type event = 2 then []
        else if type event = 3 then [(''message'', JString (message event))]
        else if type event = 4 then
          [(''sampleRate'', number_or_undefined (sampleRate event)),
           (''channelsPerFrame'',
              number_or_undefined (map_option (double_of_nat \<circ> unat) (channelsPerFrame event))),
           (''bitsPerChannel'',
              number_or_undefined (map_option (double_of_nat \<circ> unat) (bitsPerChannel event))),
           (''isFloat'', (case isFloat event of None \<Rightarrow> JUndefined | Some b \<Rightarrow> JBoolean b)),
           (''encoding'', JString (encoding event))]
        else []))"

definition ProcessEvents :: "AudioTeeWrapper \<Rightarrow> napi_value \<times> AudioTeeWrapper" where
  "ProcessEvents w =
     (let (events, w') = DrainEvents w
      in (JArray (map event_object events), w'))"

subsection \<open>Destructor\<close>

text \<open>
  The capture session is outside these files: each collaborator function is a parameter,
  acting on a session state \<open>'c\<close>. The destructor has two statements, modelled one by
  one: the store to the atomic flag, then the release of the handle when it is not null.
  What C++ does after the body, destroying the members and giving up the storage, is not
  modelled. The host reaches \<open>DrainEvents\<close> only through \<open>processEvents\<close> on an
  object it still holds, and the destructor runs when that object is finalized, so nothing
  below is decided by what a method returns after the destructor has finished.
\<close>

definition set_destroyed :: "AudioTeeWrapper \<Rightarrow> AudioTeeWrapper" where
  "set_destroyed w = w\<lparr>isDestroyed := True\<rparr>"

definition release_handle ::
  "(pointer \<Rightarrow> 'c \<Rightarrow> 'c) \<Rightarrow> AudioTeeWrapper \<times> 'c \<Rightarrow> AudioTeeWrapper \<times> 'c" where
  "release_handle audiotee_destroy wc =
     (case wc of (w, c) \<Rightarrow>
        if handle w \<noteq> 0 then (w\<lparr>handle := 0\<rparr>, audiotee_destroy (handle w) c) else (w, c))"

definition destructor ::
  "(pointer \<Rightarrow> 'c \<Rightarrow> 'c) \<Rightarrow> AudioTeeWrapper \<times> 'c \<Rightarrow> AudioTeeWrapper \<times> 'c" where
  "destructor audiotee_destroy wc =
     (case wc of (w, c) \<Rightarrow> release_handle audiotee_destroy (set_destroyed w, c))"

subsection \<open>Stop and IsRunning\<close>

text \<open>
  A method returns what the host sees (\<open>Inl\<close> a thrown error, \<open>Inr\<close> the returned
  value), the wrapper and the session state. \<open>Stop\<close> calls the collaborator and throws
  when the status is not zero; the wrapper classes differ only in the message.
\<close>

definition Stop_impl ::
  "string \<Rightarrow> (pointer \<Rightarrow> 'c \<Rightarrow> int32 \<times> 'c) \<Rightarrow> AudioTeeWrapper \<times> 'c
     \<Rightarrow> (napi_error + napi_value) \<times> AudioTeeWrapper \<times> 'c" where
  "Stop_impl msg audiotee_stop wc =
     (case wc of (w, c) \<Rightarrow>
        (case audiotee_stop (handle w) c of (result, c') \<Rightarrow>
           if result \<noteq> 0 then (Inl (Error msg), w, c') else (Inr JUndefined, w, c')))"

definition AudioTeeWrapper_Stop ::
  "(pointer \<Rightarrow> 'c \<Rightarrow> int32 \<times> 'c) \<Rightarrow> AudioTeeWrapper \<times> 'c
     \<Rightarrow> (napi_error + napi_value) \<times> AudioTeeWrapper \<times> 'c" where
  "AudioTeeWrapper_Stop = Stop_impl ''Failed to stop AudioTee''"

definition AudioRecorderWrapper_Stop ::
  "(pointer \<Rightarrow> 'c \<Rightarrow> int32 \<times> 'c) \<Rightarrow> AudioTeeWrapper \<times> 'c
     \<Rightarrow> (napi_error + napi_value) \<times> AudioTeeWrapper \<times> 'c" where
  "AudioRecorderWrapper_Stop = Stop_impl ''Failed to stop recording''"

definition IsRunning :: "(pointer \<Rightarrow> 'c \<Rightarrow> bool) \<Rightarrow> AudioTeeWrapper \<times> 'c \<Rightarrow> napi_value" where
  "IsRunning audiotee_is_running wc = (case wc of (w, c) \<Rightarrow> JBoolean (audiotee_is_running (handle w) c))"

subsection \<open>Reading the options object\<close>

text \<open>
  \<open>Has\<close> and \<open>Get\<close> on the host object, and the type tests of Node-API.
  \<open>IsObject\<close> holds of everything whose host type is object or function.
\<close>

definition Has :: "napi_value \<Rightarrow> string \<Rightarrow> bool" where
  "Has obj key = (case obj of JObject props \<Rightarrow> map_of props key \<noteq> None | _ \<Rightarrow> False)"

definition Get :: "napi_value \<Rightarrow> string \<Rightarrow> napi_value" where
  "Get obj key =
     (case obj of
        JObject props \<Rightarrow> (case map_of props key of Some v \<Rightarrow> v | None \<Rightarrow> JUndefined)
      | _ \<Rightarrow> JUndefined)"

fun IsNumber :: "napi_value \<Rightarrow> bool" where
  "IsNumber (JNumber d) = True"
| "IsNumber v = False"

fun IsBoolean :: "napi_value \<Rightarrow> bool" where
  "IsBoolean (JBoolean b) = True"
| "IsBoolean v = False"

fun IsString :: "napi_value \<Rightarrow> bool" where
  "IsString (JString s) = True"
| "IsString v = False"

fun IsArray :: "napi_value \<Rightarrow> bool" where
  "IsArray (JArray xs) = True"
| "IsArray v = False"

fun IsFunction :: "napi_value \<Rightarrow> bool" where
  "IsFunction (JFunction f) = True"
| "IsFunction v = False"

fun IsObject :: "napi_value \<Rightarrow> bool" where
  "IsObject (JObject props) = True"
| "IsObject (JArray xs) = True"
| "IsObject (JBuffer bs) = True"
| "IsObject (JFunction f) = True"
| "IsObject v = False"

text \<open>
  The value accessors. The source calls each only after the matching type test; the last
  equation of each is never reached from it.
\<close>

fun DoubleValue :: "napi_value \<Rightarrow> double" where
  "DoubleValue (JNumber d) = d"
| "DoubleValue v = 0"

fun BooleanValue :: "napi_value \<Rightarrow> bool" where
  "BooleanValue (JBoolean b) = b"
| "BooleanValue v = False"

fun Utf8Value :: "napi_value \<Rightarrow> string" where
  "Utf8Value (JString s) = s"
| "Utf8Value v = []"

fun ArrayElements :: "napi_value \<Rightarrow> napi_value list" where
  "ArrayElements (JArray xs) = xs"
| "ArrayElements v = []"

text \<open>
  \<open>Int32Value\<close> of a host number, after the Node-API documentation: a non-finite number
  gives zero, any other is truncated towards zero and reduced to its low 32 bits. The
  double is read as sign, biased exponent \<open>e\<close> and fraction \<open>m\<close>.
\<close>

definition int32_of_double :: "double \<Rightarrow> int32" where
  "int32_of_double d =
     (let bits = unat d;
          e = (bits div 2 ^ 52) mod 2048;
          m = bits mod 2 ^ 52
      in if e = 2047 \<or> e < 1023 then 0
         else let mag = (if 1075 \<le> e then (2 ^ 52 + m) * 2 ^ (e - 1075)
                         else (2 ^ 52 + m) div 2 ^ (1075 - e))
              in if 2 ^ 63 \<le> bits then word_of_int (- int mag) else word_of_int (int mag))"

definition Int32Value :: "napi_value \<Rightarrow> int32" where
  "Int32Value v = int32_of_double (DoubleValue v)"

text \<open>
  The loop over a process array: every element that is a number is converted and pushed,
  every other element is passed over.
\<close>

fun process_loop :: "napi_value list \<Rightarrow> int32 list \<Rightarrow> int32 list" where
  "process_loop [] pids = pids"
| "process_loop (x # xs) pids =
     process_loop xs (if IsNumber x then pids @ [Int32Value x] else pids)"

definition process_array :: "napi_value \<Rightarrow> string \<Rightarrow> int32 list" where
  "process_array options key =
     (if Has options key \<and> IsArray (Get options key)
      then process_loop (ArrayElements (Get options key)) []
      else [])"

text \<open>
  What the start functions hand to the collaborator. A process vector is passed as a
  pointer (\<open>None\<close> for \<open>nullptr\<close> when the vector is empty) and a count.
\<close>

record system_audio_args =
  arg_sampleRate :: double
  arg_chunkDurationMs :: double
  arg_mute :: bool
  arg_isMono :: bool
  arg_includeProcesses :: "int32 list option"
  arg_includeProcessCount :: int32
  arg_excludeProcesses :: "int32 list option"
  arg_excludeProcessCount :: int32

record microphone_args =
  mic_sampleRate :: double
  mic_chunkDurationMs :: double
  mic_isMono :: bool
  mic_deviceUID :: "string option"
  mic_gain :: double

definition number_option :: "napi_value \<Rightarrow> string \<Rightarrow> double \<Rightarrow> double" where
  "number_option options key dflt =
     (if Has options key \<and> IsNumber (Get options key) then DoubleValue (Get options key)
      else dflt)"

definition mono_option :: "napi_value \<Rightarrow> bool" where
  "mono_option options =
     (if Has options ''stereo'' \<and> IsBoolean (Get options ''stereo'')
      then \<not> BooleanValue (Get options ''stereo'')
      else True)"

definition data_or_null :: "int32 list \<Rightarrow> int32 list option" where
  "data_or_null v = (if v = [] then None else Some v)"

definition system_audio_options :: "napi_value \<Rightarrow> system_audio_args" where
  "system_audio_options options =
     (let includeProcesses = process_array options ''includeProcesses'';
          excludeProcesses = process_array options ''excludeProcesses''
      in \<lparr>arg_sampleRate = number_option options ''sampleRate'' (double_of_int 0),
          arg_chunkDurationMs = number_option options ''chunkDurationMs'' (double_of_int 200),
          arg_mute = (if Has options ''mute'' \<and> IsBoolean (Get options ''mute'')
                      then BooleanValue (Get options ''mute'') else False),
          arg_isMono = mono_option options,
          arg_includeProcesses = data_or_null includeProcesses,
          arg_includeProcessCount = of_nat (length includeProcesses),
          arg_excludeProcesses = data_or_null excludeProcesses,
          arg_excludeProcessCount = of_nat (length excludeProcesses)\<rparr>)"

text \<open>
  \<open>deviceUIDStr.c_str()\<close>: the collaborator is handed a C string, which ends at the first
  NUL of the host string.
\<close>

definition c_str :: "string \<Rightarrow> string" where
  "c_str s = takeWhile (\<lambda>ch. ch \<noteq> CHR 0x00) s"

definition microphone_options :: "napi_value \<Rightarrow> microphone_args" where
  "microphone_options options =
     \<lparr>mic_sampleRate = number_option options ''sampleRate'' (double_of_int 0),
      mic_chunkDurationMs = number_option options ''chunkDurationMs'' (double_of_int 200),
      mic_isMono = mono_option options,
      mic_deviceUID = (if Has options ''deviceId'' \<and> IsString (Get options ''deviceId'')
                       then Some (c_str (Utf8Value (Get options ''deviceId''))) else None),
      mic_gain = number_option options ''gain'' (double_of_int 1)\<rparr>"

subsection \<open>Start\<close>

text \<open>\<open>std::to_string\<close> of an \<open>int32_t\<close>: decimal digits, with a minus sign when negative.\<close>

fun decimal :: "nat \<Rightarrow> string" where
  "decimal n =
     (if n < 10 then [''0123456789'' ! n]
      else decimal (n div 10) @ [''0123456789'' ! (n mod 10)])"

declare decimal.simps [simp del]

definition to_string :: "int32 \<Rightarrow> string" where
  "to_string v = (if sint v < 0 then CHR ''-'' # decimal (nat (- sint v)) else decimal (nat (sint v)))"

text \<open>
  The inverse reading of such a string, used to state that the status code can be read
  back from the error message unchanged.
\<close>

definition digit_value :: "char \<Rightarrow> nat" where
  "digit_value ch = of_char ch - 48"

definition parse_decimal :: "string \<Rightarrow> nat" where
  "parse_decimal s = foldl (\<lambda>acc ch. 10 * acc + digit_value ch) 0 s"

definition from_string :: "string \<Rightarrow> int" where
  "from_string s =
     (case s of
        [] \<Rightarrow> 0
      | ch # ds \<Rightarrow> if ch = CHR ''-'' then - int (parse_decimal ds) else int (parse_decimal s))"

text \<open>
  The three start methods share one shape: reject a missing or non-object argument, read
  the options, call the collaborator with the handle, and throw with the status code in
  the message when the status is not zero. No member of the wrapper is assigned.
\<close>

definition Start_impl ::
  "string \<Rightarrow> (napi_value \<Rightarrow> 'a) \<Rightarrow> (pointer \<Rightarrow> 'a \<Rightarrow> 'c \<Rightarrow> int32 \<times> 'c) \<Rightarrow> napi_value list
     \<Rightarrow> AudioTeeWrapper \<times> 'c \<Rightarrow> (napi_error + napi_value) \<times> AudioTeeWrapper \<times> 'c" where
  "Start_impl prefix read_options collaborator_start info wc =
     (case wc of (w, c) \<Rightarrow>
        (case info of
           [] \<Rightarrow> (Inl (TypeError ''Options object expected''), w, c)
         | options # _ \<Rightarrow>
             if \<not> IsObject options then (Inl (TypeError ''Options object expected''), w, c)
             else (case collaborator_start (handle w) (read_options options) c of
                     (result, c') \<Rightarrow>
                       if result \<noteq> 0 then (Inl (Error (prefix @ to_string result)), w, c')
                       else (Inr JUndefined, w, c'))))"

definition Start ::
  "(pointer \<Rightarrow> system_audio_args \<Rightarrow> 'c \<Rightarrow> int32 \<times> 'c) \<Rightarrow> napi_value list
     \<Rightarrow> AudioTeeWrapper \<times> 'c \<Rightarrow> (napi_error + napi_value) \<times> AudioTeeWrapper \<times> 'c" where
  "Start = Start_impl ''Failed to start AudioTee: error code '' system_audio_options"

definition StartSystemAudio ::
  "(pointer \<Rightarrow> system_audio_args \<Rightarrow> 'c \<Rightarrow> int32 \<times> 'c) \<Rightarrow> napi_value list
     \<Rightarrow> AudioTeeWrapper \<times> 'c \<Rightarrow> (napi_error + napi_value) \<times> AudioTeeWrapper \<times> 'c" where
  "StartSystemAudio =
     Start_impl ''Failed to start system audio recording: error code '' system_audio_options"

definition StartMicrophone ::
  "(pointer \<Rightarrow> microphone_args \<Rightarrow> 'c \<Rightarrow> int32 \<times> 'c) \<Rightarrow> napi_value list
     \<Rightarrow> AudioTeeWrapper \<times> 'c \<Rightarrow> (napi_error + napi_value) \<times> AudioTeeWrapper \<times> 'c" where
  "StartMicrophone =
     Start_impl ''Failed to start microphone recording: error code '' microphone_options"

section \<open>Callbacks racing the destructor\<close>

text \<open>
  The capture session calls \<open>OnData\<close>, \<open>OnEvent\<close> and \<open>OnMetadata\<close> from its own
  threads. A call is one of three shapes; \<open>callback_event\<close> is the event its body builds
  and \<open>run_callback\<close> the whole call.
\<close>

datatype callback =
    CbData "uint8 list" int32
  | CbEvent int32 "string option"
  | CbMetadata double uint32 uint32 bool "string option"

fun callback_event :: "callback \<Rightarrow> AudioEvent" where
  "callback_event (CbData buf len) = data_event buf len"
| "callback_event (CbEvent eventType msg) = lifecycle_event eventType msg"
| "callback_event (CbMetadata rate channels bits isflt enc) =
     metadata_event rate channels bits isflt enc"

fun run_callback :: "callback \<Rightarrow> AudioTeeWrapper \<Rightarrow> AudioTeeWrapper" where
  "run_callback (CbData buf len) = OnData buf len"
| "run_callback (CbEvent eventType msg) = OnEvent eventType msg"
| "run_callback (CbMetadata rate channels bits isflt enc) =
     OnMetadata rate channels bits isflt enc"

text \<open>
  The interleaving semantics. A callback in flight is at its entry, past the flag test
  with the flag seen clear, or returned. Between the test and \<open>QueueEvent\<close> the callback
  holds no lock, so other steps may come in between; \<open>QueueEvent\<close> and \<open>DrainEvents\<close>
  are atomic under the mutex. The destructor is at statement 0, 1 or 2.
\<close>

datatype cb_pc = AtEntry | PastCheck | Returned

record 'c system =
  wrapper :: AudioTeeWrapper
  session :: 'c
  inflight :: "(callback \<times> cb_pc) list"
  dtor_pc :: nat

text \<open>
  The steps, by label: the session invokes a callback; callback \<open>i\<close> tests the flag;
  callback \<open>i\<close> calls \<open>QueueEvent\<close>; the destructor stores the flag; the destructor
  releases the handle; the host thread drains. \<open>step\<close> is \<open>None\<close> where the labelled
  step is not enabled in the state.
\<close>

datatype label =
    Invoke callback
  | Check nat
  | Enqueue nat
  | DtorSetFlag
  | DtorRelease
  | Drain

fun step :: "(pointer \<Rightarrow> 'c \<Rightarrow> 'c) \<Rightarrow> label \<Rightarrow> 'c system \<Rightarrow> 'c system option" where
  "step audiotee_destroy (Invoke cb) s = Some (s\<lparr>inflight := inflight s @ [(cb, AtEntry)]\<rparr>)"
| "step audiotee_destroy (Check i) s =
     (if i < length (inflight s) \<and> snd (inflight s ! i) = AtEntry
      then Some (s\<lparr>inflight := (inflight s)
                  [i := (fst (inflight s ! i),
                         if isDestroyed (wrapper s) then Returned else PastCheck)]\<rparr>)
      else None)"
| "step audiotee_destroy (Enqueue i) s =
     (if i < length (inflight s) \<and> snd (inflight s ! i) = PastCheck
      then Some (s\<lparr>wrapper := QueueEvent (callback_event (fst (inflight s ! i))) (wrapper s),
                    inflight := (inflight s)[i := (fst (inflight s ! i), Returned)]\<rparr>)
      else None)"
| "step audiotee_destroy DtorSetFlag s =
     (if dtor_pc s = 0 then Some (s\<lparr>wrapper := set_destroyed (wrapper s), dtor_pc := 1\<rparr>)
      else None)"
| "step audiotee_destroy DtorRelease s =
     (if dtor_pc s = 1
      then Some (s\<lparr>wrapper := fst (release_handle audiotee_destroy (wrapper s, session s)),
                    session := snd (release_handle audiotee_destroy (wrapper s, session s)),
                    dtor_pc := 2\<rparr>)
      else None)"
| "step audiotee_destroy Drain s = Some (s\<lparr>wrapper := snd (DrainEvents (wrapper s))\<rparr>)"

text \<open>A run takes the labelled steps in order; it is \<open>None\<close> when one is not enabled.\<close>

fun run :: "(pointer \<Rightarrow> 'c \<Rightarrow> 'c) \<Rightarrow> label list \<Rightarrow> 'c system \<Rightarrow> 'c system option" where
  "run audiotee_destroy [] s = Some s"
| "run audiotee_destroy (l # ls) s =
     (case step audiotee_destroy l s of
        None \<Rightarrow> None
      | Some s' \<Rightarrow> run audiotee_destroy ls s')"

text \<open>A freshly constructed wrapper, no callback in flight, destructor not started.\<close>

definition initial :: "pointer \<Rightarrow> 'c \<Rightarrow> 'c system" where
  "initial h c =
     \<lparr>wrapper = \<lparr>handle = h, eventQueue = [], isDestroyed = False\<rparr>,
      session = c, inflight = [], dtor_pc = 0\<rparr>"

fun is_enqueue :: "label \<Rightarrow> bool" where
  "is_enqueue (Enqueue i) = True"
| "is_enqueue l = False"

definition none_past_check :: "'c system \<Rightarrow> bool" where
  "none_past_check s = (PastCheck \<notin> snd ` set (inflight s))"

text \<open>
  What holds of the destructor in every state reachable from \<open>initial h c\<close>: once its
  first statement has run the flag is set, and until its second statement has run the
  handle and the session are untouched.
\<close>

definition dtor_inv :: "pointer \<Rightarrow> 'c \<Rightarrow> 'c system \<Rightarrow> bool" where
  "dtor_inv h c s =
     ((0 < dtor_pc s \<longrightarrow> isDestroyed (wrapper s))
      \<and> (dtor_pc s < 2 \<longrightarrow> handle (wrapper s) = h \<and> session s = c))"

text \<open>Callbacks run one after the other, each to completion.\<close>

definition run_callbacks :: "callback list \<Rightarrow> AudioTeeWrapper \<Rightarrow> AudioTeeWrapper" where
  "run_callbacks cbs w = foldl (\<lambda>s cb. run_callback cb s) w cbs"

subsection \<open>A scripted capture session\<close>

text \<open>
  A capture session for the concrete instances below. It answers \<open>start\<close> and \<open>stop\<close>
  with the status it was scripted with, and changes its running state only when that
  status is zero; \<open>destroy\<close> stops it and records the handle.
\<close>

record scripted_session =
  running :: bool
  start_status :: int32
  stop_status :: int32
  destroyed_handles :: "pointer list"

definition scripted_start :: "pointer \<Rightarrow> 'a \<Rightarrow> scripted_session \<Rightarrow> int32 \<times> scripted_session" where
  "scripted_start h args c = (start_status c, if start_status c = 0 then c\<lparr>running := True\<rparr> else c)"

definition scripted_stop :: "pointer \<Rightarrow> scripted_session \<Rightarrow> int32 \<times> scripted_session" where
  "scripted_stop h c = (stop_status c, if stop_status c = 0 then c\<lparr>running := False\<rparr> else c)"

definition scripted_is_running :: "pointer \<Rightarrow> scripted_session \<Rightarrow> bool" where
  "scripted_is_running h c = running c"

definition scripted_destroy :: "pointer \<Rightarrow> scripted_session \<Rightarrow> scripted_session" where
  "scripted_destroy h c = c\<lparr>running := False, destroyed_handles := destroyed_handles c @ [h]\<rparr>"

text \<open>A start function that succeeds and records the arguments it is called with.\<close>

definition recording_start :: "pointer \<Rightarrow> 'a \<Rightarrow> 'a list \<Rightarrow> int32 \<times> 'a list" where
  "recording_start h args received = (0, received @ [args])"

section \<open>Device enumeration\<close>

text \<open>
  Memory as the enumeration code reads it: bytes by address, and the NUL-terminated text
  that starts at an address (what \<open>Napi::String::New\<close> copies from a \<open>char*\<close>).
  Multi-byte values are little-endian, as on every platform the bindings build for; a
  \<open>bool\<close> is one byte, true when it is not zero.
\<close>

record memory =
  byte_at :: "pointer \<Rightarrow> uint8"
  c_string_at :: "pointer \<Rightarrow> string"

primrec load_le :: "memory \<Rightarrow> pointer \<Rightarrow> nat \<Rightarrow> nat" where
  "load_le mem a 0 = 0"
| "load_le mem a (Suc n) = unat (byte_at mem a) + 256 * load_le mem (a + 1) n"

definition load_pointer :: "memory \<Rightarrow> pointer \<Rightarrow> pointer" where
  "load_pointer mem a = of_nat (load_le mem a 8)"

definition load_double :: "memory \<Rightarrow> pointer \<Rightarrow> double" where
  "load_double mem a = of_nat (load_le mem a 8)"

definition load_uint32 :: "memory \<Rightarrow> pointer \<Rightarrow> uint32" where
  "load_uint32 mem a = of_nat (load_le mem a 4)"

definition load_bool :: "memory \<Rightarrow> pointer \<Rightarrow> bool" where
  "load_bool mem a = (byte_at mem a \<noteq> 0)"

text \<open>\<open>p ? p : ""\<close> handed to \<open>Napi::String::New\<close>.\<close>

definition string_or_empty :: "memory \<Rightarrow> pointer \<Rightarrow> napi_value" where
  "string_or_empty mem p = JString (if p \<noteq> 0 then c_string_at mem p else [])"

text \<open>The body of the loop of \<open>ListDevices\<close> for the record at \<open>base\<close>.\<close>

definition device_object :: "memory \<Rightarrow> pointer \<Rightarrow> napi_value" where
  "device_object mem base =
     (let uid = load_pointer mem (base + 0);
          name = load_pointer mem (base + 8);
          manufacturer = load_pointer mem (base + 16);
          isDefault = load_bool mem (base + 24);
          isInput = load_bool mem (base + 25);
          isOutput = load_bool mem (base + 26);
          rate = load_double mem (base + 32);
          channelCount = load_uint32 mem (base + 40)
      in JObject
           [(''id'', string_or_empty mem uid),
            (''name'', string_or_empty mem name),
            (''manufacturer'', string_or_empty mem manufacturer),
            (''isDefault'', JBoolean isDefault),
            (''isInput'', JBoolean isInput),
            (''isOutput'', JBoolean isOutput),
            (''sampleRate'', JNumber rate),
            (''channelCount'', JNumber (double_of_nat (unat channelCount)))])"

definition structSize :: nat where
  "structSize = 48"

text \<open>
  \<open>ListDevices\<close>. The collaborator's \<open>coreaudio_list_devices\<close> returns a status and
  leaves the array pointer and the count in the two out-parameters, which start as
  \<open>nullptr\<close> and \<open>0\<close>; \<open>memory_of\<close> is the memory of a collaborator state. The array
  elements are set for the indices \<open>0 \<le> i < count\<close>.
\<close>

definition device_loop :: "memory \<Rightarrow> pointer \<Rightarrow> int32 \<Rightarrow> napi_value list" where
  "device_loop mem devices count =
     map (\<lambda>i. device_object mem (devices + of_nat (i * structSize))) [0..<nat (sint count)]"

definition ListDevices ::
  "('c \<Rightarrow> (int32 \<times> pointer \<times> int32) \<times> 'c) \<Rightarrow> (pointer \<Rightarrow> int32 \<Rightarrow> 'c \<Rightarrow> 'c) \<Rightarrow> ('c \<Rightarrow> memory)
     \<Rightarrow> 'c \<Rightarrow> (napi_error + napi_value) \<times> 'c" where
  "ListDevices coreaudio_list_devices coreaudio_free_device_list memory_of c =
     (case coreaudio_list_devices c of ((result, devices, count), c1) \<Rightarrow>
        if result \<noteq> 0 \<or> devices = 0 \<or> count = 0 then (Inr (JArray []), c1)
        else let arr = device_loop (memory_of c1) devices count
             in (Inr (JArray arr), coreaudio_free_device_list devices count c1))"

text \<open>
  The record layout that the header documents for \<open>coreaudio_list_devices\<close>: the fields
  in order, each with its size in bytes. \<open>offset_of\<close> is the sum of the sizes before a
  field.
\<close>

definition device_layout :: "(string \<times> nat) list" where
  "device_layout =
     [(''uid'', 8), (''name'', 8), (''manufacturer'', 8), (''isDefault'', 1), (''isInput'', 1),
      (''isOutput'', 1), (''pad1'', 5), (''sampleRate'', 8), (''channelCount'', 4), (''pad2'', 4)]"

fun offset_of :: "(string \<times> nat) list \<Rightarrow> string \<Rightarrow> nat" where
  "offset_of [] field = 0"
| "offset_of ((f, width) # rest) field = (if f = field then 0 else width + offset_of rest field)"

text \<open>
  The device record as the header documents it for \<open>coreaudio_list_devices\<close>: three
  text pointers, three flags, five bytes of padding, the sample rate, the channel count
  and four bytes of padding. \<open>encode_device\<close> is its 48 bytes in memory, with the
  padding zero, and \<open>stored_devices\<close> says that an array of such records lies at an
  address. \<open>device_descriptor\<close> is the host object that describes a record.
\<close>

record AudioDeviceInfo =
  dev_uid :: pointer
  dev_name :: pointer
  dev_manufacturer :: pointer
  dev_isDefault :: bool
  dev_isInput :: bool
  dev_isOutput :: bool
  dev_sampleRate :: double
  dev_channelCount :: uint32

primrec le_bytes :: "nat \<Rightarrow> nat \<Rightarrow> uint8 list" where
  "le_bytes 0 v = []"
| "le_bytes (Suc n) v = of_nat v # le_bytes n (v div 256)"

definition bool_byte :: "bool \<Rightarrow> uint8" where
  "bool_byte b = (if b then 1 else 0)"

definition encode_device :: "AudioDeviceInfo \<Rightarrow> uint8 list" where
  "encode_device d =
     le_bytes 8 (unat (dev_uid d)) @ le_bytes 8 (unat (dev_name d))
     @ le_bytes 8 (unat (dev_manufacturer d))
     @ [bool_byte (dev_isDefault d), bool_byte (dev_isInput d), bool_byte (dev_isOutput d)]
     @ replicate 5 0
     @ le_bytes 8 (unat (dev_sampleRate d)) @ le_bytes 4 (unat (dev_channelCount d))
     @ replicate 4 0"

definition stored_devices :: "memory \<Rightarrow> pointer \<Rightarrow> AudioDeviceInfo list \<Rightarrow> bool" where
  "stored_devices mem devices ds =
     (\<forall>k < 48 * length ds.
        byte_at mem (devices + of_nat k) = concat (map encode_device ds) ! k)"

definition device_descriptor :: "memory \<Rightarrow> AudioDeviceInfo \<Rightarrow> napi_value" where
  "device_descriptor mem d =
     JObject
       [(''id'', JString (if dev_uid d = 0 then [] else c_string_at mem (dev_uid d))),
        (''name'', JString (if dev_name d = 0 then [] else c_string_at mem (dev_name d))),
        (''manufacturer'',
           JString (if dev_manufacturer d = 0 then [] else c_string_at mem (dev_manufacturer d))),
        (''isDefault'', JBoolean (dev_isDefault d)),
        (''isInput'', JBoolean (dev_isInput d)),
        (''isOutput'', JBoolean (dev_isOutput d)),
        (''sampleRate'', JNumber (dev_sampleRate d)),
        (''channelCount'', JNumber (double_of_nat (unat (dev_channelCount d))))]"

text \<open>The little-endian value of a byte sequence.\<close>

primrec from_le :: "uint8 list \<Rightarrow> nat" where
  "from_le [] = 0"
| "from_le (b # bs) = unat b + 256 * from_le bs"

subsection \<open>A scripted enumeration\<close>

text \<open>
  A collaborator for the concrete instances below: \<open>list\<close> answers with the scripted
  status, pointer and count; \<open>free\<close> records its arguments and wipes the memory.
  \<open>example_memory\<close> holds the two records of \<open>example_devices\<close> at \<open>0x1000\<close>
  and their texts; every other byte is zero.
\<close>

record enumeration =
  list_answer :: "int32 \<times> pointer \<times> int32"
  enum_memory :: memory
  freed :: "(pointer \<times> int32) list"

definition scripted_list_devices :: "enumeration \<Rightarrow> (int32 \<times> pointer \<times> int32) \<times> enumeration" where
  "scripted_list_devices c = (list_answer c, c)"

definition zero_memory :: memory where
  "zero_memory = \<lparr>byte_at = (\<lambda>a. 0), c_string_at = (\<lambda>a. [])\<rparr>"

definition scripted_free_device_list :: "pointer \<Rightarrow> int32 \<Rightarrow> enumeration \<Rightarrow> enumeration" where
  "scripted_free_device_list devices count c =
     c\<lparr>enum_memory := zero_memory, freed := freed c @ [(devices, count)]\<rparr>"

definition place_bytes :: "pointer \<Rightarrow> uint8 list \<Rightarrow> pointer \<Rightarrow> uint8" where
  "place_bytes base bs a = (if unat (a - base) < length bs then bs ! unat (a - base) else 0)"

definition example_devices :: "AudioDeviceInfo list" where
  "example_devices =
     [\<lparr>dev_uid = 0x2000, dev_name = 0x2010, dev_manufacturer = 0, dev_isDefault = True,
       dev_isInput = True, dev_isOutput = False, dev_sampleRate = 0x40E7700000000000,
       dev_channelCount = 2\<rparr>,
      \<lparr>dev_uid = 0x2020, dev_name = 0, dev_manufacturer = 0x2030, dev_isDefault = False,
       dev_isInput = False, dev_isOutput = True, dev_sampleRate = 0x40E5888000000000,
       dev_channelCount = 1\<rparr>]"

definition example_strings :: "(pointer \<times> string) list" where
  "example_strings =
     [(0x2000, ''BuiltInMicrophoneDevice''), (0x2010, ''MacBook Pro Microphone''),
      (0x2020, ''BuiltInSpeakerDevice''), (0x2030, ''Apple Inc.'')]"

definition example_memory :: memory where
  "example_memory =
     \<lparr>byte_at = place_bytes 0x1000 (concat (map encode_device example_devices)),
      c_string_at = (\<lambda>a. case map_of example_strings a of Some s \<Rightarrow> s | None \<Rightarrow> [])\<rparr>"

section \<open>Permission requests\<close>

text \<open>
  \<open>struct PermissionRequestContext\<close> holds one thread-safe function: the host callback
  it wraps and its count of acquiring threads (created with one). The state of the
  permission bridge: the contexts that are allocated and not yet deleted, by address; the
  calls into the host queued by \<open>BlockingCall\<close>, each a callback and its argument; the
  thread-safe functions whose last thread has released them; and the requests handed to
  the collaborator with their context pointer.
\<close>

record ThreadSafeFunction =
  tsfn_callback :: nat
  tsfn_threads :: nat

record permission_state =
  contexts :: "(nat \<times> ThreadSafeFunction) list"
  host_calls :: "(nat \<times> napi_value list) list"
  finalized :: "nat list"
  requested :: "nat list"

text \<open>
  \<open>new PermissionRequestContext()\<close> returns a non-null address that no live context has.
\<close>

definition new_address :: "(nat \<times> ThreadSafeFunction) list \<Rightarrow> nat" where
  "new_address heap = Suc (fold max (map fst heap) 0)"

definition RequestPermission ::
  "napi_value list \<Rightarrow> permission_state \<Rightarrow> (napi_error + napi_value) \<times> permission_state" where
  "RequestPermission info st =
     (case info of
        [] \<Rightarrow> (Inl (TypeError ''Callback function expected''), st)
      | JFunction callback # _ \<Rightarrow>
          (let ctx = new_address (contexts st);
               tsfn = \<lparr>tsfn_callback = callback, tsfn_threads = 1\<rparr>
           in (Inr JUndefined,
               st\<lparr>contexts := (ctx, tsfn) # contexts st, requested := requested st @ [ctx]\<rparr>))
      | _ # _ \<Rightarrow> (Inl (TypeError ''Callback function expected''), st))"

text \<open>
  The native completion callback: queue the host call with the flag, release the
  thread-safe function, delete the context. Called with a pointer that is not a live
  context the source dereferences freed memory; that is \<open>None\<close>.
\<close>

definition PermissionRequestCallback ::
  "bool \<Rightarrow> nat \<Rightarrow> permission_state \<Rightarrow> permission_state option" where
  "PermissionRequestCallback granted ctx st =
     (case map_of (contexts st) ctx of
        None \<Rightarrow> None
      | Some tsfn \<Rightarrow>
          Some (st\<lparr>host_calls := host_calls st @ [(tsfn_callback tsfn, [JBoolean granted])],
                   finalized := (if tsfn_threads tsfn - 1 = 0
                                 then finalized st @ [tsfn_callback tsfn] else finalized st),
                   contexts := filter (\<lambda>e. fst e \<noteq> ctx) (contexts st)\<rparr>))"

section \<open>The event queue\<close>

text \<open>Enqueueing a sequence of events, one \<open>QueueEvent\<close> call each, in order.\<close>

definition enqueue_all :: "AudioEvent list \<Rightarrow> AudioTeeWrapper \<Rightarrow> AudioTeeWrapper" where
  "enqueue_all events w = foldl (\<lambda>s e. QueueEvent e s) w events"

lemma drain_loop_eq: "drain_loop q events = ([], events @ q)"
  by (induction q arbitrary: events) simp_all

lemma DrainEvents_eq: "DrainEvents w = (eventQueue w, w\<lparr>eventQueue := []\<rparr>)"
  by (simp add: DrainEvents_def drain_loop_eq)

lemma enqueue_all_eq: "enqueue_all events w = w\<lparr>eventQueue := eventQueue w @ events\<rparr>"
  unfolding enqueue_all_def
  by (induction events arbitrary: w) (simp_all add: QueueEvent_def)

lemma run_callback_destroyed: "isDestroyed w \<Longrightarrow> run_callback cb w = w"
  by (cases cb) (simp_all add: OnData_def OnEvent_def OnMetadata_def)

lemma run_callback_live:
  "\<not> isDestroyed w \<Longrightarrow> run_callback cb w = QueueEvent (callback_event cb) w"
  by (cases cb) (simp_all add: OnData_def OnEvent_def OnMetadata_def)

lemma QueueEvent_isDestroyed: "isDestroyed (QueueEvent e w) = isDestroyed w"
  by (simp add: QueueEvent_def)

lemma run_callbacks_live:
  "\<not> isDestroyed w \<Longrightarrow> run_callbacks cbs w = enqueue_all (map callback_event cbs) w"
  unfolding run_callbacks_def enqueue_all_def
  by (induction cbs arbitrary: w) (simp_all add: run_callback_live QueueEvent_isDestroyed)

text \<open>
  Claim C1. Whatever sequence of events is passed to \<open>QueueEvent\<close>, one \<open>DrainEvents\<close>
  afterwards returns what was already queued followed by exactly those events, each once
  and in the order of the calls, and leaves the queue empty. On a wrapper whose queue is
  empty the result is the enqueued sequence itself and the wrapper is as before. On a
  wrapper that is not destroyed, the same holds of the events of any sequence of callbacks,
  each run to completion.
\<close>

theorem drain_returns_enqueued_fifo:
  "DrainEvents (enqueue_all events w) = (eventQueue w @ events, w\<lparr>eventQueue := []\<rparr>)
   \<and> (eventQueue w = [] \<longrightarrow> DrainEvents (enqueue_all events w) = (events, w))
   \<and> (\<not> isDestroyed w \<longrightarrow>
        DrainEvents (run_callbacks cbs w)
          = (eventQueue w @ map callback_event cbs, w\<lparr>eventQueue := []\<rparr>))"
  by (simp add: DrainEvents_eq enqueue_all_eq run_callbacks_live)

theorem drain_returns_enqueued_fifo_witness:
  "eventQueue \<lparr>handle = 1, eventQueue = [], isDestroyed = False\<rparr> = []
   \<and> \<not> isDestroyed \<lparr>handle = 1, eventQueue = [], isDestroyed = False\<rparr>
   \<and> DrainEvents
        (QueueEvent (lifecycle_event 1 None)
          (QueueEvent (data_event [0, 1, 2, 3] 4)
            (QueueEvent (metadata_event (double_of_int 44100) 2 32 True (Some ''pcm_f32''))
              \<lparr>handle = 1, eventQueue = [], isDestroyed = False\<rparr>)))
       = ([metadata_event (double_of_int 44100) 2 32 True (Some ''pcm_f32''),
           data_event [0, 1, 2, 3] 4, lifecycle_event 1 None],
          \<lparr>handle = 1, eventQueue = [], isDestroyed = False\<rparr>)
   \<and> DrainEvents
        (OnEvent 1 None
          (OnData [0, 1, 2, 3] 4
            (OnMetadata (double_of_int 44100) 2 32 True (Some ''pcm_f32'')
              \<lparr>handle = 1, eventQueue = [], isDestroyed = False\<rparr>)))
       = ([metadata_event (double_of_int 44100) 2 32 True (Some ''pcm_f32''),
           data_event [0, 1, 2, 3] 4, lifecycle_event 1 None],
          \<lparr>handle = 1, eventQueue = [], isDestroyed = False\<rparr>)"
  using drain_returns_enqueued_fifo
    [of "[metadata_event (double_of_int 44100) 2 32 True (Some ''pcm_f32''),
          data_event [0, 1, 2, 3] 4, lifecycle_event 1 None]"
        "\<lparr>handle = 1, eventQueue = [], isDestroyed = False\<rparr>"
        "[CbMetadata (double_of_int 44100) 2 32 True (Some ''pcm_f32''),
          CbData [0, 1, 2, 3] 4, CbEvent 1 None]"]
  by (simp add: enqueue_all_def run_callbacks_def)

text \<open>
  Claim C8. On a wrapper that is not destroyed, \<open>OnData\<close> with length zero enqueues a
  data event (type 0) whose payload is empty, and the next \<open>ProcessEvents\<close> delivers it,
  after the events queued before it, as an object of type 0 with an empty buffer.
\<close>

theorem zero_length_chunk_forwarded:
  "\<not> isDestroyed self \<Longrightarrow>
     OnData buf 0 self = QueueEvent (data_event buf 0) self
     \<and> data (data_event buf 0) = [] \<and> type (data_event buf 0) = 0
     \<and> fst (DrainEvents (OnData buf 0 self)) = eventQueue self @ [data_event buf 0]
     \<and> fst (ProcessEvents (OnData buf 0 self)) =
         JArray (map event_object (eventQueue self)
                 @ [JObject [(''type'', JNumber 0), (''data'', JBuffer [])]])"
  by (simp add: OnData_def DrainEvents_eq QueueEvent_def ProcessEvents_def event_object_def
      data_event_def double_of_int_def double_of_nat_def)

theorem zero_length_chunk_forwarded_witness:
  "\<not> isDestroyed \<lparr>handle = 1, eventQueue = [], isDestroyed = False\<rparr>
   \<and> fst (ProcessEvents (OnData [] 0 \<lparr>handle = 1, eventQueue = [], isDestroyed = False\<rparr>))
       = JArray [JObject [(''type'', JNumber 0), (''data'', JBuffer [])]]"
  using zero_length_chunk_forwarded [of "\<lparr>handle = 1, eventQueue = [], isDestroyed = False\<rparr>" "[]"]
  by (simp add: OnData_def)

section \<open>Teardown\<close>

lemma release_handle_wrapper:
  "fst (release_handle d (w, c)) = w\<lparr>handle := 0\<rparr>"
  by (simp add: release_handle_def)

lemma none_past_check_update:
  "none_past_check s \<Longrightarrow> pc \<noteq> PastCheck \<Longrightarrow>
   PastCheck \<notin> snd ` set ((inflight s)[i := (cb, pc)])"
  unfolding none_past_check_def
  using set_update_subset_insert [of "inflight s" i "(cb, pc)"] by auto

lemma step_after_destroy:
  assumes "step d l s = Some s'" and "isDestroyed (wrapper s)" and "none_past_check s"
  shows "isDestroyed (wrapper s') \<and> none_past_check s' \<and> \<not> is_enqueue l
         \<and> eventQueue (wrapper s') = (if l = Drain then [] else eventQueue (wrapper s))"
proof (cases l)
  case (Invoke cb)
  with assms show ?thesis by (auto simp: none_past_check_def)
next
  case (Check i)
  with assms have en: "i < length (inflight s)" "snd (inflight s ! i) = AtEntry"
    and s': "s' = s\<lparr>inflight := (inflight s)[i := (fst (inflight s ! i), Returned)]\<rparr>"
    by (auto split: if_splits)
  have "PastCheck \<notin> snd ` set ((inflight s)[i := (fst (inflight s ! i), Returned)])"
    using none_past_check_update [OF assms(3), of Returned i] by simp
  with assms(2) Check s' show ?thesis by (simp add: none_past_check_def)
next
  case (Enqueue i)
  with assms have "i < length (inflight s)" and "snd (inflight s ! i) = PastCheck"
    by (auto split: if_splits)
  then have "PastCheck \<in> snd ` set (inflight s)"
    by (metis image_eqI nth_mem)
  with assms show ?thesis by (simp add: none_past_check_def)
next
  case DtorSetFlag
  with assms show ?thesis
    by (auto simp: none_past_check_def set_destroyed_def split: if_splits)
next
  case DtorRelease
  with assms show ?thesis
    by (auto simp: none_past_check_def release_handle_wrapper split: if_splits)
next
  case Drain
  with assms show ?thesis
    by (auto simp: none_past_check_def DrainEvents_eq)
qed

lemma run_after_destroy:
  "run d ls s = Some s' \<Longrightarrow> isDestroyed (wrapper s) \<Longrightarrow> none_past_check s \<Longrightarrow>
   isDestroyed (wrapper s') \<and> none_past_check s' \<and> list_all (\<lambda>l. \<not> is_enqueue l) ls
   \<and> eventQueue (wrapper s') = (if Drain \<in> set ls then [] else eventQueue (wrapper s))"
proof (induction ls arbitrary: s)
  case Nil
  then show ?case by simp
next
  case (Cons l ls)
  from Cons.prems(1) obtain s1 where st: "step d l s = Some s1" and rn: "run d ls s1 = Some s'"
    by (auto split: option.splits)
  from step_after_destroy [OF st Cons.prems(2) Cons.prems(3)]
  have a: "isDestroyed (wrapper s1)" and b: "none_past_check s1" and c: "\<not> is_enqueue l"
    and q: "eventQueue (wrapper s1) = (if l = Drain then [] else eventQueue (wrapper s))"
    by simp_all
  from Cons.IH [OF rn a b] c q show ?case by auto
qed

lemma step_observer:
  assumes "step d l s = Some s'" and "isDestroyed (wrapper s)"
    and "i < length (inflight s)" and "snd (inflight s ! i) \<noteq> PastCheck"
  shows "isDestroyed (wrapper s') \<and> i < length (inflight s')
         \<and> snd (inflight s' ! i) \<noteq> PastCheck \<and> l \<noteq> Enqueue i"
proof (cases l)
  case (Invoke cb)
  with assms show ?thesis by (auto simp: nth_append)
next
  case (Check j)
  with assms show ?thesis by (auto simp: nth_list_update split: if_splits)
next
  case (Enqueue j)
  with assms show ?thesis by (auto simp: nth_list_update QueueEvent_def split: if_splits)
next
  case DtorSetFlag
  with assms show ?thesis by (auto simp: set_destroyed_def split: if_splits)
next
  case DtorRelease
  with assms show ?thesis by (auto simp: release_handle_wrapper split: if_splits)
next
  case Drain
  with assms show ?thesis by (auto simp: DrainEvents_eq)
qed

lemma run_observer:
  "run d ls s = Some s' \<Longrightarrow> isDestroyed (wrapper s) \<Longrightarrow> i < length (inflight s) \<Longrightarrow>
   snd (inflight s ! i) \<noteq> PastCheck \<Longrightarrow> Enqueue i \<notin> set ls"
proof (induction ls arbitrary: s)
  case Nil
  then show ?case by simp
next
  case (Cons l ls)
  from Cons.prems(1) obtain s1 where st: "step d l s = Some s1" and rn: "run d ls s1 = Some s'"
    by (auto split: option.splits)
  from step_observer [OF st Cons.prems(2) Cons.prems(3) Cons.prems(4)]
  have a: "isDestroyed (wrapper s1)" and b: "i < length (inflight s1)"
    and c: "snd (inflight s1 ! i) \<noteq> PastCheck" and e: "l \<noteq> Enqueue i"
    by simp_all
  from Cons.IH [OF rn a b c] e show ?case by simp
qed

lemma step_dtor_inv:
  assumes "step d l s = Some s'" and "dtor_inv h c s"
  shows "dtor_inv h c s'"
proof (cases l)
  case (Invoke cb)
  with assms show ?thesis by (auto simp: dtor_inv_def)
next
  case (Check j)
  with assms show ?thesis by (auto simp: dtor_inv_def split: if_splits)
next
  case (Enqueue j)
  with assms show ?thesis by (auto simp: dtor_inv_def QueueEvent_def split: if_splits)
next
  case DtorSetFlag
  with assms show ?thesis by (auto simp: dtor_inv_def set_destroyed_def split: if_splits)
next
  case DtorRelease
  with assms show ?thesis by (auto simp: dtor_inv_def release_handle_wrapper split: if_splits)
next
  case Drain
  with assms show ?thesis by (auto simp: dtor_inv_def DrainEvents_eq)
qed

lemma run_dtor_inv:
  "run d ls s = Some s' \<Longrightarrow> dtor_inv h c s \<Longrightarrow> dtor_inv h c s'"
proof (induction ls arbitrary: s)
  case Nil
  then show ?case by simp
next
  case (Cons l ls)
  from Cons.prems(1) obtain s1 where st: "step d l s = Some s1" and rn: "run d ls s1 = Some s'"
    by (auto split: option.splits)
  from Cons.IH [OF rn step_dtor_inv [OF st Cons.prems(2)]] show ?case .
qed

lemma initial_dtor_inv: "dtor_inv h c (initial h c)"
  by (simp add: dtor_inv_def initial_def)


lemma callback_steps_live:
  "\<not> isDestroyed (wrapper s) \<Longrightarrow>
   run d [Invoke cb, Check (length (inflight s)), Enqueue (length (inflight s))] s =
     Some (s\<lparr>wrapper := run_callback cb (wrapper s),
              inflight := inflight s @ [(cb, Returned)]\<rparr>)"
  by (simp add: run_callback_live nth_append QueueEvent_def)

lemma callback_steps_destroyed:
  "isDestroyed (wrapper s) \<Longrightarrow>
   run d [Invoke cb, Check (length (inflight s))] s =
     Some (s\<lparr>wrapper := run_callback cb (wrapper s),
              inflight := inflight s @ [(cb, Returned)]\<rparr>)"
  by (simp add: run_callback_destroyed nth_append)

text \<open>
  The window that the hypotheses below exclude: a callback that tested the flag before the
  destructor stored it still enqueues afterwards.
\<close>

lemma enqueue_by_callback_past_check:
  "run scripted_destroy [Invoke (CbEvent 0 None), Check 0, DtorSetFlag, DtorRelease, Enqueue 0]
     (initial 7 \<lparr>running = True, start_status = 0, stop_status = 0, destroyed_handles = []\<rparr>)
   = Some \<lparr>wrapper = \<lparr>handle = 0, eventQueue = [lifecycle_event 0 None], isDestroyed = True\<rparr>,
           session = \<lparr>running = False, start_status = 0, stop_status = 0, destroyed_handles = [7]\<rparr>,
           inflight = [(CbEvent 0 None, Returned)], dtor_pc = 2\<rparr>"
  by (simp add: initial_def set_destroyed_def release_handle_def scripted_destroy_def
      QueueEvent_def)

text \<open>
  Claim C3. Each of \<open>OnData\<close>, \<open>OnEvent\<close> and \<open>OnMetadata\<close> tests the destroyed
  flag first and, when it is set, returns the wrapper as it was, with nothing enqueued.
  The destructor is the flag store followed by the release, and the release runs on a
  state whose flag is set and whose handle is still the one to release. In every run from
  a fresh wrapper the release step is taken only with the flag set and the handle and
  session untouched, and whenever the handle or the session has changed the flag is set.
  A callback that is at its entry when the flag is set never takes its enqueue step; and
  in a run that starts with the flag set and no callback between its flag test and its
  \<open>QueueEvent\<close>, no enqueue step occurs at all.
\<close>

theorem destroyed_flag_guards_callbacks:
  "(isDestroyed self \<longrightarrow>
      OnData buf len self = self \<and> OnEvent eventType msg self = self
      \<and> OnMetadata rate channels bits isflt enc self = self)
   \<and> destructor d (w, c) = release_handle d (set_destroyed w, c)
   \<and> isDestroyed (set_destroyed w) \<and> handle (set_destroyed w) = handle w
   \<and> (\<forall>ls s s'. run d ls (initial h c) = Some s \<and> step d DtorRelease s = Some s'
          \<longrightarrow> isDestroyed (wrapper s) \<and> handle (wrapper s) = h \<and> session s = c)
   \<and> (\<forall>ls s. run d ls (initial h c) = Some s \<and> (handle (wrapper s) \<noteq> h \<or> session s \<noteq> c)
          \<longrightarrow> isDestroyed (wrapper s))
   \<and> (\<forall>ls s s' i. run d ls s = Some s' \<and> isDestroyed (wrapper s)
          \<and> i < length (inflight s) \<and> snd (inflight s ! i) = AtEntry
          \<longrightarrow> Enqueue i \<notin> set ls)
   \<and> (\<forall>ls s s'. run d ls s = Some s' \<and> isDestroyed (wrapper s) \<and> none_past_check s
          \<longrightarrow> list_all (\<lambda>l. \<not> is_enqueue l) ls)"
proof -
  have a: "isDestroyed self \<longrightarrow>
      OnData buf len self = self \<and> OnEvent eventType msg self = self
      \<and> OnMetadata rate channels bits isflt enc self = self"
    by (simp add: OnData_def OnEvent_def OnMetadata_def)
  have b: "destructor d (w, c) = release_handle d (set_destroyed w, c)
      \<and> isDestroyed (set_destroyed w) \<and> handle (set_destroyed w) = handle w"
    by (simp add: destructor_def set_destroyed_def)
  have inv: "dtor_inv h c s" if "run d ls (initial h c) = Some s" for ls s
    using run_dtor_inv [OF that initial_dtor_inv] .
  have c: "\<forall>ls s s'. run d ls (initial h c) = Some s \<and> step d DtorRelease s = Some s'
          \<longrightarrow> isDestroyed (wrapper s) \<and> handle (wrapper s) = h \<and> session s = c"
  proof (intro allI impI)
    fix ls s s'
    assume asm: "run d ls (initial h c) = Some s \<and> step d DtorRelease s = Some s'"
    then have pc: "dtor_pc s = 1" by (simp split: if_splits)
    from asm have "dtor_inv h c s" using inv by blast
    with pc show "isDestroyed (wrapper s) \<and> handle (wrapper s) = h \<and> session s = c"
      by (simp add: dtor_inv_def)
  qed
  have e: "\<forall>ls s. run d ls (initial h c) = Some s \<and> (handle (wrapper s) \<noteq> h \<or> session s \<noteq> c)
          \<longrightarrow> isDestroyed (wrapper s)"
  proof (intro allI impI)
    fix ls s
    assume asm: "run d ls (initial h c) = Some s \<and> (handle (wrapper s) \<noteq> h \<or> session s \<noteq> c)"
    then have i: "dtor_inv h c s" using inv by blast
    with asm have "\<not> dtor_pc s < 2" unfolding dtor_inv_def by blast
    then have "0 < dtor_pc s" by simp
    with i show "isDestroyed (wrapper s)" unfolding dtor_inv_def by blast
  qed
  have f: "\<forall>ls s s' i. run d ls s = Some s' \<and> isDestroyed (wrapper s)
          \<and> i < length (inflight s) \<and> snd (inflight s ! i) = AtEntry
          \<longrightarrow> Enqueue i \<notin> set ls"
  proof (intro allI impI)
    fix ls s s' i
    assume asm: "run d ls s = Some s' \<and> isDestroyed (wrapper s)
          \<and> i < length (inflight s) \<and> snd (inflight s ! i) = AtEntry"
    then have "snd (inflight s ! i) \<noteq> PastCheck" by simp
    with asm show "Enqueue i \<notin> set ls" using run_observer [of d ls s s' i] by blast
  qed
  have g: "\<forall>ls s s'. run d ls s = Some s' \<and> isDestroyed (wrapper s) \<and> none_past_check s
          \<longrightarrow> list_all (\<lambda>l. \<not> is_enqueue l) ls"
  proof (intro allI impI)
    fix ls s s'
    assume asm: "run d ls s = Some s' \<and> isDestroyed (wrapper s) \<and> none_past_check s"
    then show "list_all (\<lambda>l. \<not> is_enqueue l) ls" using run_after_destroy [of d ls s s'] by blast
  qed
  from a b c e f g show ?thesis by (intro conjI) simp_all
qed


theorem destroyed_flag_guards_callbacks_witness:
  "isDestroyed \<lparr>handle = 0, eventQueue = [], isDestroyed = True\<rparr>
   \<and> OnData [1, 2] 2 \<lparr>handle = 0, eventQueue = [], isDestroyed = True\<rparr>
       = \<lparr>handle = 0, eventQueue = [], isDestroyed = True\<rparr>
   \<and> run scripted_destroy [Invoke (CbEvent 0 None), DtorSetFlag, Check 0]
         (initial 7 \<lparr>running = True, start_status = 0, stop_status = 0, destroyed_handles = []\<rparr>)
       = Some \<lparr>wrapper = \<lparr>handle = 7, eventQueue = [], isDestroyed = True\<rparr>,
               session = \<lparr>running = True, start_status = 0, stop_status = 0, destroyed_handles = []\<rparr>,
               inflight = [(CbEvent 0 None, Returned)], dtor_pc = 1\<rparr>
   \<and> step scripted_destroy DtorRelease
         \<lparr>wrapper = \<lparr>handle = 7, eventQueue = [], isDestroyed = True\<rparr>,
          session = \<lparr>running = True, start_status = 0, stop_status = 0, destroyed_handles = []\<rparr>,
          inflight = [(CbEvent 0 None, Returned)], dtor_pc = 1\<rparr>
       = Some \<lparr>wrapper = \<lparr>handle = 0, eventQueue = [], isDestroyed = True\<rparr>,
               session = \<lparr>running = False, start_status = 0, stop_status = 0, destroyed_handles = [7]\<rparr>,
               inflight = [(CbEvent 0 None, Returned)], dtor_pc = 2\<rparr>
   \<and> run scripted_destroy [Check 0, DtorRelease, Drain]
         \<lparr>wrapper = \<lparr>handle = 7, eventQueue = [], isDestroyed = True\<rparr>,
          session = \<lparr>running = True, start_status = 0, stop_status = 0, destroyed_handles = []\<rparr>,
          inflight = [(CbEvent 0 None, AtEntry)], dtor_pc = 1\<rparr>
       = Some \<lparr>wrapper = \<lparr>handle = 0, eventQueue = [], isDestroyed = True\<rparr>,
               session = \<lparr>running = False, start_status = 0, stop_status = 0, destroyed_handles = [7]\<rparr>,
               inflight = [(CbEvent 0 None, Returned)], dtor_pc = 2\<rparr>
   \<and> none_past_check
         \<lparr>wrapper = \<lparr>handle = 7, eventQueue = [], isDestroyed = True\<rparr>,
          session = \<lparr>running = True, start_status = 0, stop_status = 0, destroyed_handles = []\<rparr>,
          inflight = [(CbEvent 0 None, AtEntry)], dtor_pc = 1\<rparr>
   \<and> Enqueue 0 \<notin> set [Check 0, DtorRelease, Drain]
   \<and> list_all (\<lambda>l. \<not> is_enqueue l) [Check 0, DtorRelease, Drain]"
  using destroyed_flag_guards_callbacks
    [where self = "\<lparr>handle = 0, eventQueue = [], isDestroyed = True\<rparr>"
       and buf = "[1, 2]" and len = 2 and d = scripted_destroy and h = 7
       and c = "\<lparr>running = True, start_status = 0, stop_status = 0, destroyed_handles = []\<rparr>"]
  by (simp add: initial_def set_destroyed_def release_handle_def scripted_destroy_def
      none_past_check_def DrainEvents_eq)

section \<open>Start and Stop\<close>

lemma Stop_impl_result:
  "Stop_impl msg stop (w, c) =
     (if fst (stop (handle w) c) \<noteq> 0 then Inl (Error msg) else Inr JUndefined, w, snd (stop (handle w) c))"
  by (simp add: Stop_impl_def split: prod.splits)

lemma digit_value_digit: "d < 10 \<Longrightarrow> digit_value (''0123456789'' ! d) = d"
proof -
  assume "d < 10"
  then consider "d = 0" | "d = 1" | "d = 2" | "d = 3" | "d = 4" | "d = 5" | "d = 6"
    | "d = 7" | "d = 8" | "d = 9"
    by atomize_elim arith
  then show ?thesis by cases (simp_all add: digit_value_def)
qed

lemma digit_not_minus: "d < 10 \<Longrightarrow> ''0123456789'' ! d \<noteq> CHR ''-''"
proof -
  assume "d < 10"
  then consider "d = 0" | "d = 1" | "d = 2" | "d = 3" | "d = 4" | "d = 5" | "d = 6"
    | "d = 7" | "d = 8" | "d = 9"
    by atomize_elim arith
  then show ?thesis by cases simp_all
qed

lemma parse_decimal_snoc: "parse_decimal (s @ [ch]) = 10 * parse_decimal s + digit_value ch"
  by (simp add: parse_decimal_def)

lemma parse_decimal_decimal: "parse_decimal (decimal n) = n"
proof (induction n rule: decimal.induct)
  case (1 n)
  show ?case
  proof (cases "n < 10")
    case True
    then show ?thesis
      by (subst decimal.simps) (simp add: parse_decimal_def digit_value_digit)
  next
    case False
    with 1 have ih: "parse_decimal (decimal (n div 10)) = n div 10" by simp
    have "n mod 10 < 10" by simp
    with False ih show ?thesis
      by (subst decimal.simps) (simp add: parse_decimal_snoc digit_value_digit)
  qed
qed

lemma decimal_hd: "\<exists>ch rest. decimal n = ch # rest \<and> ch \<noteq> CHR ''-''"
proof (induction n rule: decimal.induct)
  case (1 n)
  show ?case
  proof (cases "n < 10")
    case True
    then show ?thesis
      by (subst decimal.simps) (simp add: digit_not_minus)
  next
    case False
    with 1 obtain ch rest where "decimal (n div 10) = ch # rest" and "ch \<noteq> CHR ''-''" by auto
    with False show ?thesis
      by (subst decimal.simps) simp
  qed
qed

lemma from_string_to_string: "from_string (to_string v) = sint v"
proof (cases "sint v < 0")
  case True
  then show ?thesis by (simp add: to_string_def from_string_def parse_decimal_decimal)
next
  case False
  obtain ch rest where d: "decimal (nat (sint v)) = ch # rest" and m: "ch \<noteq> CHR ''-''"
    using decimal_hd by blast
  have "int (parse_decimal (decimal (nat (sint v)))) = sint v"
    using False by (simp add: parse_decimal_decimal)
  with False d m show ?thesis by (simp add: to_string_def from_string_def)
qed

lemma Start_impl_object:
  "IsObject options \<Longrightarrow>
   Start_impl prefix rd start (options # rest) (w, c) =
     (if fst (start (handle w) (rd options) c) \<noteq> 0
      then Inl (Error (prefix @ to_string (fst (start (handle w) (rd options) c))))
      else Inr JUndefined, w, snd (start (handle w) (rd options) c))"
  by (simp add: Start_impl_def split: prod.splits)

lemma process_loop_eq: "process_loop xs pids = pids @ map Int32Value (filter IsNumber xs)"
  by (induction xs arbitrary: pids) simp_all


text \<open>
  Claim C4 as stated fails in its second half: \<open>Stop\<close> assigns no member of the
  wrapper, and \<open>IsRunning\<close> is the collaborator's answer. With a session that answers
  \<open>stop\<close> with a non-zero status and keeps running, \<open>Stop\<close> throws and \<open>IsRunning\<close>
  is still true afterwards.
\<close>

theorem stop_failure_leaves_session_running:
  "IsRunning scripted_is_running
     (snd (AudioTeeWrapper_Stop scripted_stop
        (\<lparr>handle = 1, eventQueue = [], isDestroyed = False\<rparr>,
         \<lparr>running = True, start_status = 0, stop_status = 5, destroyed_handles = []\<rparr>)))
   = JBoolean True
   \<and> fst (AudioTeeWrapper_Stop scripted_stop
        (\<lparr>handle = 1, eventQueue = [], isDestroyed = False\<rparr>,
         \<lparr>running = True, start_status = 0, stop_status = 5, destroyed_handles = []\<rparr>))
     = Inl (Error ''Failed to stop AudioTee'')"
  by (simp add: AudioTeeWrapper_Stop_def Stop_impl_result IsRunning_def scripted_stop_def scripted_is_running_def)

text \<open>
  Claim C4, amended. \<open>Stop\<close> throws its error exactly when the collaborator's stop
  status is not zero and returns undefined exactly when it is zero; it leaves every member
  of the wrapper as it was, and the session in the state the collaborator's stop left it.
  What \<open>IsRunning\<close> reports after \<open>Stop\<close> is the collaborator's answer on that state.
\<close>

theorem stop_throws_iff_nonzero_status:
  "(fst (AudioTeeWrapper_Stop stop (w, c)) = Inl (Error ''Failed to stop AudioTee'')
      \<longleftrightarrow> fst (stop (handle w) c) \<noteq> 0)
   \<and> (fst (AudioTeeWrapper_Stop stop (w, c)) = Inr JUndefined \<longleftrightarrow> fst (stop (handle w) c) = 0)
   \<and> (fst (AudioRecorderWrapper_Stop stop (w, c)) = Inl (Error ''Failed to stop recording'')
      \<longleftrightarrow> fst (stop (handle w) c) \<noteq> 0)
   \<and> (fst (AudioRecorderWrapper_Stop stop (w, c)) = Inr JUndefined \<longleftrightarrow> fst (stop (handle w) c) = 0)
   \<and> snd (AudioTeeWrapper_Stop stop (w, c)) = (w, snd (stop (handle w) c))
   \<and> snd (AudioRecorderWrapper_Stop stop (w, c)) = (w, snd (stop (handle w) c))
   \<and> IsRunning is_running (snd (AudioTeeWrapper_Stop stop (w, c)))
       = JBoolean (is_running (handle w) (snd (stop (handle w) c)))"
  by (simp add: AudioTeeWrapper_Stop_def AudioRecorderWrapper_Stop_def Stop_impl_result IsRunning_def)

theorem stop_throws_iff_nonzero_status_witness:
  "fst (scripted_stop 1 \<lparr>running = True, start_status = 0, stop_status = 0, destroyed_handles = []\<rparr>) = 0
   \<and> AudioTeeWrapper_Stop scripted_stop
        (\<lparr>handle = 1, eventQueue = [], isDestroyed = False\<rparr>,
         \<lparr>running = True, start_status = 0, stop_status = 0, destroyed_handles = []\<rparr>)
     = (Inr JUndefined, \<lparr>handle = 1, eventQueue = [], isDestroyed = False\<rparr>,
         \<lparr>running = False, start_status = 0, stop_status = 0, destroyed_handles = []\<rparr>)"
  using stop_throws_iff_nonzero_status [where stop = scripted_stop
      and w = "\<lparr>handle = 1, eventQueue = [], isDestroyed = False\<rparr>"
      and c = "\<lparr>running = True, start_status = 0, stop_status = 0, destroyed_handles = []\<rparr>"]
  by (simp add: scripted_stop_def prod_eq_iff)

text \<open>
  Claim C5. For an options argument that is an object, \<open>Start\<close> (and
  \<open>StartSystemAudio\<close>) throws exactly when the collaborator's start status is not zero;
  the message is the fixed prefix followed by the decimal status, from which the status
  reads back unchanged; on success it returns undefined. In both cases the wrapper is
  returned as it was, so a second \<open>Start\<close> runs from the same wrapper and succeeds when
  the collaborator then answers zero.
\<close>

theorem start_throws_iff_nonzero_status:
  assumes "IsObject options"
  shows "((\<exists>e. fst (Start start (options # rest) (w, c)) = Inl e)
            \<longleftrightarrow> fst (start (handle w) (system_audio_options options) c) \<noteq> 0)
         \<and> (fst (start (handle w) (system_audio_options options) c) \<noteq> 0 \<longrightarrow>
              fst (Start start (options # rest) (w, c)) =
                Inl (Error (''Failed to start AudioTee: error code ''
                            @ to_string (fst (start (handle w) (system_audio_options options) c))))
              \<and> fst (StartSystemAudio start (options # rest) (w, c)) =
                Inl (Error (''Failed to start system audio recording: error code ''
                            @ to_string (fst (start (handle w) (system_audio_options options) c)))))
         \<and> (fst (start (handle w) (system_audio_options options) c) = 0 \<longrightarrow>
              fst (Start start (options # rest) (w, c)) = Inr JUndefined
              \<and> fst (StartSystemAudio start (options # rest) (w, c)) = Inr JUndefined)
         \<and> from_string (to_string (fst (start (handle w) (system_audio_options options) c)))
              = sint (fst (start (handle w) (system_audio_options options) c))
         \<and> snd (Start start (options # rest) (w, c))
              = (w, snd (start (handle w) (system_audio_options options) c))
         \<and> snd (StartSystemAudio start (options # rest) (w, c))
              = (w, snd (start (handle w) (system_audio_options options) c))
         \<and> (fst (start' (handle w) (system_audio_options options)
                    (snd (start (handle w) (system_audio_options options) c))) = 0 \<longrightarrow>
              fst (Start start' (options # rest) (snd (Start start (options # rest) (w, c))))
                = Inr JUndefined)"
  using assms
  by (simp add: Start_def StartSystemAudio_def Start_impl_object from_string_to_string)

theorem start_throws_iff_nonzero_status_witness:
  "IsObject (JObject [(''sampleRate'', JNumber (double_of_int 44100))])
   \<and> Start scripted_start [JObject [(''sampleRate'', JNumber (double_of_int 44100))]]
        (\<lparr>handle = 1, eventQueue = [], isDestroyed = False\<rparr>,
         \<lparr>running = False, start_status = - 50, stop_status = 0, destroyed_handles = []\<rparr>)
     = (Inl (Error ''Failed to start AudioTee: error code -50''),
        \<lparr>handle = 1, eventQueue = [], isDestroyed = False\<rparr>,
        \<lparr>running = False, start_status = - 50, stop_status = 0, destroyed_handles = []\<rparr>)"
proof -
  have obj: "IsObject (JObject [(''sampleRate'', JNumber (double_of_int 44100))])" by simp
  have ts: "to_string (- 50) = ''-50''"
    by (simp add: to_string_def decimal.simps)
  show ?thesis
    using start_throws_iff_nonzero_status [OF obj, where start = scripted_start and rest = "[]"
        and w = "\<lparr>handle = 1, eventQueue = [], isDestroyed = False\<rparr>"
        and c = "\<lparr>running = False, start_status = - 50, stop_status = 0, destroyed_handles = []\<rparr>"]
    by (simp add: scripted_start_def ts prod_eq_iff)
qed

lemma Get_JArray_Has: "Get options key = JArray xs \<Longrightarrow> Has options key"
  by (auto simp: Get_def Has_def split: napi_value.splits option.splits)

lemma Get_JNumber_Has: "Get options key = JNumber d \<Longrightarrow> Has options key"
  by (auto simp: Get_def Has_def split: napi_value.splits option.splits)

lemma Get_JBoolean_Has: "Get options key = JBoolean b \<Longrightarrow> Has options key"
  by (auto simp: Get_def Has_def split: napi_value.splits option.splits)

lemma Get_JString_Has: "Get options key = JString t \<Longrightarrow> Has options key"
  by (auto simp: Get_def Has_def split: napi_value.splits option.splits)

lemma process_array_present:
  "Get options key = JArray xs \<Longrightarrow>
   process_array options key = map Int32Value (filter IsNumber xs)"
  by (simp add: process_array_def process_loop_eq Get_JArray_Has)

lemma c_str_example: "c_str [CHR ''m'', CHR ''i'', CHR ''c'', CHR 0x00, CHR ''x''] = ''mic''"
  by (simp add: c_str_def)

text \<open>
  Claim C9. The literals \<open>0\<close>, \<open>200\<close> and \<open>1.0\<close> are the doubles with the bit patterns
  shown. What the start methods hand to the collaborator for a process array that is
  present is exactly its elements that are numbers, converted, in order, with their count
  (a null pointer when none is left); every other element is passed over. A field that is
  absent or not of the expected type is replaced by its default: \<open>sampleRate\<close> 0,
  \<open>chunkDurationMs\<close> 200, \<open>mute\<close> false, mono true, \<open>gain\<close> 1.0, no device, and a
  null pointer with count 0 for a process array; a field that is present with the expected
  type is handed on as it is (\<open>stereo\<close> negated, the device text up to its first NUL).
  For an options object the collaborator is called, with the wrapper's handle, on exactly
  the options read this way, and no error arises unless the collaborator's status is not
  zero.
\<close>

theorem start_option_defaults:
  "(double_of_int 0 = 0 \<and> double_of_int 200 = 0x4069000000000000
      \<and> double_of_int 1 = 0x3FF0000000000000)
   \<and> (\<forall>xs. Get options ''includeProcesses'' = JArray xs \<longrightarrow>
        arg_includeProcesses (system_audio_options options)
          = (if filter IsNumber xs = [] then None
             else Some (map Int32Value (filter IsNumber xs)))
        \<and> arg_includeProcessCount (system_audio_options options)
          = of_nat (length (filter IsNumber xs)))
   \<and> (\<forall>xs. Get options ''excludeProcesses'' = JArray xs \<longrightarrow>
        arg_excludeProcesses (system_audio_options options)
          = (if filter IsNumber xs = [] then None
             else Some (map Int32Value (filter IsNumber xs)))
        \<and> arg_excludeProcessCount (system_audio_options options)
          = of_nat (length (filter IsNumber xs)))
   \<and> (IsObject options \<longrightarrow>
        Start recording_start (options # rest) (w, received)
          = (Inr JUndefined, w, received @ [system_audio_options options])
        \<and> StartSystemAudio recording_start (options # rest) (w, received)
          = (Inr JUndefined, w, received @ [system_audio_options options])
        \<and> StartMicrophone recording_start (options # rest) (w, mic_received)
          = (Inr JUndefined, w, mic_received @ [microphone_options options]))
   \<and> (\<not> (Has options ''sampleRate'' \<and> IsNumber (Get options ''sampleRate'')) \<longrightarrow>
      arg_sampleRate (system_audio_options options) = double_of_int 0
      \<and> mic_sampleRate (microphone_options options) = double_of_int 0)
   \<and> (\<not> (Has options ''chunkDurationMs'' \<and> IsNumber (Get options ''chunkDurationMs'')) \<longrightarrow>
      arg_chunkDurationMs (system_audio_options options) = double_of_int 200
      \<and> mic_chunkDurationMs (microphone_options options) = double_of_int 200)
   \<and> (\<not> (Has options ''mute'' \<and> IsBoolean (Get options ''mute'')) \<longrightarrow>
      arg_mute (system_audio_options options) = False)
   \<and> (\<not> (Has options ''stereo'' \<and> IsBoolean (Get options ''stereo'')) \<longrightarrow>
      arg_isMono (system_audio_options options) = True
      \<and> mic_isMono (microphone_options options) = True)
   \<and> (\<not> (Has options ''gain'' \<and> IsNumber (Get options ''gain'')) \<longrightarrow>
      mic_gain (microphone_options options) = double_of_int 1)
   \<and> (\<not> (Has options ''deviceId'' \<and> IsString (Get options ''deviceId'')) \<longrightarrow>
      mic_deviceUID (microphone_options options) = None)
   \<and> (\<not> (Has options ''includeProcesses'' \<and> IsArray (Get options ''includeProcesses'')) \<longrightarrow>
      arg_includeProcesses (system_audio_options options) = None
      \<and> arg_includeProcessCount (system_audio_options options) = 0)
   \<and> (\<not> (Has options ''excludeProcesses'' \<and> IsArray (Get options ''excludeProcesses'')) \<longrightarrow>
      arg_excludeProcesses (system_audio_options options) = None
      \<and> arg_excludeProcessCount (system_audio_options options) = 0)
   \<and> (\<forall>d. Get options ''sampleRate'' = JNumber d \<longrightarrow>
        arg_sampleRate (system_audio_options options) = d
        \<and> mic_sampleRate (microphone_options options) = d)
   \<and> (\<forall>d. Get options ''chunkDurationMs'' = JNumber d \<longrightarrow>
        arg_chunkDurationMs (system_audio_options options) = d
        \<and> mic_chunkDurationMs (microphone_options options) = d)
   \<and> (\<forall>b. Get options ''mute'' = JBoolean b \<longrightarrow> arg_mute (system_audio_options options) = b)
   \<and> (\<forall>b. Get options ''stereo'' = JBoolean b \<longrightarrow>
        arg_isMono (system_audio_options options) = (\<not> b)
        \<and> mic_isMono (microphone_options options) = (\<not> b))
   \<and> (\<forall>d. Get options ''gain'' = JNumber d \<longrightarrow> mic_gain (microphone_options options) = d)
   \<and> (\<forall>t. Get options ''deviceId'' = JString t \<longrightarrow>
        mic_deviceUID (microphone_options options) = Some (c_str t))
   \<and> (\<forall>key xs. Has options key \<and> Get options key = JArray xs \<longrightarrow>
      process_array options key = map Int32Value (filter IsNumber xs))
   \<and> (IsObject options \<longrightarrow>
      snd (snd (Start start (options # rest) (w, c)))
        = snd (start (handle w) (system_audio_options options) c)
      \<and> snd (snd (StartSystemAudio start (options # rest) (w, c)))
        = snd (start (handle w) (system_audio_options options) c)
      \<and> snd (snd (StartMicrophone mic_start (options # rest) (w, c)))
        = snd (mic_start (handle w) (microphone_options options) c)
      \<and> (fst (start (handle w) (system_audio_options options) c) = 0 \<longrightarrow>
           fst (Start start (options # rest) (w, c)) = Inr JUndefined
           \<and> fst (StartSystemAudio start (options # rest) (w, c)) = Inr JUndefined)
      \<and> (fst (mic_start (handle w) (microphone_options options) c) = 0 \<longrightarrow>
           fst (StartMicrophone mic_start (options # rest) (w, c)) = Inr JUndefined))"
proof -
  have n0: "double_of_int 0 = 0"
    by (simp add: double_of_int_def double_of_nat_def bit_length.simps Let_def)
  have n200: "double_of_int 200 = 0x4069000000000000"
    by (simp add: double_of_int_def double_of_nat_def bit_length.simps Let_def)
  have n1: "double_of_int 1 = 0x3FF0000000000000"
    by (simp add: double_of_int_def double_of_nat_def bit_length.simps Let_def)
  have inc: "\<forall>xs. Get options ''includeProcesses'' = JArray xs \<longrightarrow>
        arg_includeProcesses (system_audio_options options)
          = (if filter IsNumber xs = [] then None
             else Some (map Int32Value (filter IsNumber xs)))
        \<and> arg_includeProcessCount (system_audio_options options)
          = of_nat (length (filter IsNumber xs))"
    by (simp add: system_audio_options_def Let_def process_array_present data_or_null_def)
  have exc: "\<forall>xs. Get options ''excludeProcesses'' = JArray xs \<longrightarrow>
        arg_excludeProcesses (system_audio_options options)
          = (if filter IsNumber xs = [] then None
             else Some (map Int32Value (filter IsNumber xs)))
        \<and> arg_excludeProcessCount (system_audio_options options)
          = of_nat (length (filter IsNumber xs))"
    by (simp add: system_audio_options_def Let_def process_array_present data_or_null_def)
  have rec: "IsObject options \<longrightarrow>
        Start recording_start (options # rest) (w, received)
          = (Inr JUndefined, w, received @ [system_audio_options options])
        \<and> StartSystemAudio recording_start (options # rest) (w, received)
          = (Inr JUndefined, w, received @ [system_audio_options options])
        \<and> StartMicrophone recording_start (options # rest) (w, mic_received)
          = (Inr JUndefined, w, mic_received @ [microphone_options options])"
    by (simp add: Start_def StartSystemAudio_def StartMicrophone_def Start_impl_object recording_start_def)
  have d_rate: "\<not> (Has options ''sampleRate'' \<and> IsNumber (Get options ''sampleRate'')) \<longrightarrow>
      arg_sampleRate (system_audio_options options) = double_of_int 0
      \<and> mic_sampleRate (microphone_options options) = double_of_int 0"
    by (simp add: system_audio_options_def number_option_def mono_option_def process_array_def data_or_null_def Let_def microphone_options_def)
  have d_chunk: "\<not> (Has options ''chunkDurationMs'' \<and> IsNumber (Get options ''chunkDurationMs'')) \<longrightarrow>
      arg_chunkDurationMs (system_audio_options options) = double_of_int 200
      \<and> mic_chunkDurationMs (microphone_options options) = double_of_int 200"
    by (simp add: system_audio_options_def number_option_def mono_option_def process_array_def data_or_null_def Let_def microphone_options_def)
  have d_mute: "\<not> (Has options ''mute'' \<and> IsBoolean (Get options ''mute'')) \<longrightarrow>
      arg_mute (system_audio_options options) = False"
    by (simp add: system_audio_options_def number_option_def mono_option_def process_array_def data_or_null_def Let_def)
  have d_stereo: "\<not> (Has options ''stereo'' \<and> IsBoolean (Get options ''stereo'')) \<longrightarrow>
      arg_isMono (system_audio_options options) = True
      \<and> mic_isMono (microphone_options options) = True"
    by (simp add: system_audio_options_def number_option_def mono_option_def process_array_def data_or_null_def Let_def microphone_options_def)
  have d_gain: "\<not> (Has options ''gain'' \<and> IsNumber (Get options ''gain'')) \<longrightarrow>
      mic_gain (microphone_options options) = double_of_int 1"
    by (simp add: microphone_options_def number_option_def mono_option_def)
  have d_dev: "\<not> (Has options ''deviceId'' \<and> IsString (Get options ''deviceId'')) \<longrightarrow>
      mic_deviceUID (microphone_options options) = None"
    by (simp add: microphone_options_def number_option_def mono_option_def)
  have d_inc: "\<not> (Has options ''includeProcesses'' \<and> IsArray (Get options ''includeProcesses'')) \<longrightarrow>
      arg_includeProcesses (system_audio_options options) = None
      \<and> arg_includeProcessCount (system_audio_options options) = 0"
    by (simp add: system_audio_options_def number_option_def mono_option_def process_array_def data_or_null_def Let_def)
  have d_exc: "\<not> (Has options ''excludeProcesses'' \<and> IsArray (Get options ''excludeProcesses'')) \<longrightarrow>
      arg_excludeProcesses (system_audio_options options) = None
      \<and> arg_excludeProcessCount (system_audio_options options) = 0"
    by (simp add: system_audio_options_def number_option_def mono_option_def process_array_def data_or_null_def Let_def)
  have p_rate: "\<forall>d. Get options ''sampleRate'' = JNumber d \<longrightarrow>
        arg_sampleRate (system_audio_options options) = d
        \<and> mic_sampleRate (microphone_options options) = d"
    by (simp add: system_audio_options_def number_option_def mono_option_def process_array_def data_or_null_def Let_def microphone_options_def Get_JNumber_Has Get_JBoolean_Has Get_JString_Has)
  have p_chunk: "\<forall>d. Get options ''chunkDurationMs'' = JNumber d \<longrightarrow>
        arg_chunkDurationMs (system_audio_options options) = d
        \<and> mic_chunkDurationMs (microphone_options options) = d"
    by (simp add: system_audio_options_def number_option_def mono_option_def process_array_def data_or_null_def Let_def microphone_options_def Get_JNumber_Has Get_JBoolean_Has Get_JString_Has)
  have p_mute: "\<forall>b. Get options ''mute'' = JBoolean b \<longrightarrow> arg_mute (system_audio_options options) = b"
    by (simp add: system_audio_options_def number_option_def mono_option_def process_array_def data_or_null_def Let_def Get_JNumber_Has Get_JBoolean_Has Get_JString_Has)
  have p_stereo: "\<forall>b. Get options ''stereo'' = JBoolean b \<longrightarrow>
        arg_isMono (system_audio_options options) = (\<not> b)
        \<and> mic_isMono (microphone_options options) = (\<not> b)"
    by (simp add: system_audio_options_def number_option_def mono_option_def process_array_def data_or_null_def Let_def microphone_options_def Get_JNumber_Has Get_JBoolean_Has Get_JString_Has)
  have p_gain: "\<forall>d. Get options ''gain'' = JNumber d \<longrightarrow> mic_gain (microphone_options options) = d"
    by (simp add: microphone_options_def number_option_def mono_option_def Get_JNumber_Has Get_JBoolean_Has Get_JString_Has)
  have p_dev: "\<forall>t. Get options ''deviceId'' = JString t \<longrightarrow>
        mic_deviceUID (microphone_options options) = Some (c_str t)"
    by (simp add: microphone_options_def number_option_def mono_option_def Get_JNumber_Has Get_JBoolean_Has Get_JString_Has)
  have arr: "\<forall>key xs. Has options key \<and> Get options key = JArray xs \<longrightarrow>
      process_array options key = map Int32Value (filter IsNumber xs)"
    by (simp add: process_array_def process_loop_eq)
  have fwd: "IsObject options \<longrightarrow>
      snd (snd (Start start (options # rest) (w, c)))
        = snd (start (handle w) (system_audio_options options) c)
      \<and> snd (snd (StartSystemAudio start (options # rest) (w, c)))
        = snd (start (handle w) (system_audio_options options) c)
      \<and> snd (snd (StartMicrophone mic_start (options # rest) (w, c)))
        = snd (mic_start (handle w) (microphone_options options) c)
      \<and> (fst (start (handle w) (system_audio_options options) c) = 0 \<longrightarrow>
           fst (Start start (options # rest) (w, c)) = Inr JUndefined
           \<and> fst (StartSystemAudio start (options # rest) (w, c)) = Inr JUndefined)
      \<and> (fst (mic_start (handle w) (microphone_options options) c) = 0 \<longrightarrow>
           fst (StartMicrophone mic_start (options # rest) (w, c)) = Inr JUndefined)"
    by (simp add: Start_def StartSystemAudio_def StartMicrophone_def Start_impl_object)
  from n0 n200 n1 inc exc rec d_rate d_chunk d_mute d_stereo d_gain d_dev d_inc d_exc p_rate p_chunk p_mute p_stereo p_gain p_dev arr fwd
  show ?thesis by (intro conjI) assumption+
qed

theorem start_option_defaults_witness:
  "IsObject
     (JObject [(''sampleRate'', JString ''fast''), (''mute'', JNumber 0),
               (''includeProcesses'',
                JArray [JNumber (double_of_int 42), JString ''x'', JNull, JNumber (double_of_int 7)]),
               (''excludeProcesses'', JArray [JBoolean True, JNumber (double_of_int 9), JUndefined]),
               (''deviceId'', JString ''BuiltInMic''), (''gain'', JNull)])
   \<and> \<not> (Has (JObject [(''sampleRate'', JString ''fast''), (''mute'', JNumber 0),
               (''includeProcesses'',
                JArray [JNumber (double_of_int 42), JString ''x'', JNull, JNumber (double_of_int 7)]),
               (''excludeProcesses'', JArray [JBoolean True, JNumber (double_of_int 9), JUndefined]),
               (''deviceId'', JString ''BuiltInMic''), (''gain'', JNull)]) ''sampleRate''
          \<and> IsNumber (Get (JObject [(''sampleRate'', JString ''fast''), (''mute'', JNumber 0),
               (''includeProcesses'',
                JArray [JNumber (double_of_int 42), JString ''x'', JNull, JNumber (double_of_int 7)]),
               (''excludeProcesses'', JArray [JBoolean True, JNumber (double_of_int 9), JUndefined]),
               (''deviceId'', JString ''BuiltInMic''), (''gain'', JNull)]) ''sampleRate''))
   \<and> Get (JObject [(''sampleRate'', JString ''fast''), (''mute'', JNumber 0),
               (''includeProcesses'',
                JArray [JNumber (double_of_int 42), JString ''x'', JNull, JNumber (double_of_int 7)]),
               (''excludeProcesses'', JArray [JBoolean True, JNumber (double_of_int 9), JUndefined]),
               (''deviceId'', JString ''BuiltInMic''), (''gain'', JNull)]) ''excludeProcesses''
       = JArray [JBoolean True, JNumber (double_of_int 9), JUndefined]
   \<and> Start recording_start
        [JObject [(''sampleRate'', JString ''fast''), (''mute'', JNumber 0),
               (''includeProcesses'',
                JArray [JNumber (double_of_int 42), JString ''x'', JNull, JNumber (double_of_int 7)]),
               (''excludeProcesses'', JArray [JBoolean True, JNumber (double_of_int 9), JUndefined]),
               (''deviceId'', JString ''BuiltInMic''), (''gain'', JNull)]]
        (\<lparr>handle = 1, eventQueue = [], isDestroyed = False\<rparr>, [])
       = (Inr JUndefined, \<lparr>handle = 1, eventQueue = [], isDestroyed = False\<rparr>,
          [\<lparr>arg_sampleRate = 0, arg_chunkDurationMs = 0x4069000000000000, arg_mute = False,
            arg_isMono = True, arg_includeProcesses = Some [42, 7], arg_includeProcessCount = 2,
            arg_excludeProcesses = Some [9], arg_excludeProcessCount = 1\<rparr>])
   \<and> StartMicrophone recording_start
        [JObject [(''sampleRate'', JString ''fast''), (''mute'', JNumber 0),
               (''includeProcesses'',
                JArray [JNumber (double_of_int 42), JString ''x'', JNull, JNumber (double_of_int 7)]),
               (''excludeProcesses'', JArray [JBoolean True, JNumber (double_of_int 9), JUndefined]),
               (''deviceId'', JString ''BuiltInMic''), (''gain'', JNull)]]
        (\<lparr>handle = 1, eventQueue = [], isDestroyed = False\<rparr>, [])
       = (Inr JUndefined, \<lparr>handle = 1, eventQueue = [], isDestroyed = False\<rparr>,
          [\<lparr>mic_sampleRate = 0, mic_chunkDurationMs = 0x4069000000000000, mic_isMono = True,
            mic_deviceUID = Some ''BuiltInMic'', mic_gain = 0x3FF0000000000000\<rparr>])"
proof -
  define options where "options =
     JObject [(''sampleRate'', JString ''fast''), (''mute'', JNumber 0),
               (''includeProcesses'',
                JArray [JNumber (double_of_int 42), JString ''x'', JNull, JNumber (double_of_int 7)]),
               (''excludeProcesses'', JArray [JBoolean True, JNumber (double_of_int 9), JUndefined]),
               (''deviceId'', JString ''BuiltInMic''), (''gain'', JNull)]"
  have conv: "Int32Value (JNumber (double_of_int 42)) = 42"
    "Int32Value (JNumber (double_of_int 7)) = 7" "Int32Value (JNumber (double_of_int 9)) = 9"
    by (simp_all add: Int32Value_def int32_of_double_def double_of_int_def double_of_nat_def
        bit_length.simps Let_def)
  have obj: "IsObject options" by (simp add: options_def)
  have g_inc: "Get options ''includeProcesses''
      = JArray [JNumber (double_of_int 42), JString ''x'', JNull, JNumber (double_of_int 7)]"
    and g_exc: "Get options ''excludeProcesses''
      = JArray [JBoolean True, JNumber (double_of_int 9), JUndefined]"
    and g_dev: "Get options ''deviceId'' = JString ''BuiltInMic''"
    and no_rate: "\<not> (Has options ''sampleRate'' \<and> IsNumber (Get options ''sampleRate''))"
    and no_chunk: "\<not> (Has options ''chunkDurationMs'' \<and> IsNumber (Get options ''chunkDurationMs''))"
    and no_mute: "\<not> (Has options ''mute'' \<and> IsBoolean (Get options ''mute''))"
    and no_stereo: "\<not> (Has options ''stereo'' \<and> IsBoolean (Get options ''stereo''))"
    and no_gain: "\<not> (Has options ''gain'' \<and> IsNumber (Get options ''gain''))"
    by (simp_all add: options_def Get_def Has_def)
  note inst = start_option_defaults [where options = options and rest = "[]"
      and w = "\<lparr>handle = 1, eventQueue = [], isDestroyed = False\<rparr>"
      and received = "[]" and mic_received = "[]"
      and start = scripted_start and mic_start = scripted_start
      and c = "\<lparr>running = False, start_status = 0, stop_status = 0, destroyed_handles = []\<rparr>"]
  note nums = inst [THEN conjunct1]
  note inc = inst [THEN conjunct2, THEN conjunct1, rule_format, OF g_inc]
  note exc = inst [THEN conjunct2, THEN conjunct2, THEN conjunct1, rule_format, OF g_exc]
  note rec = inst [THEN conjunct2, THEN conjunct2, THEN conjunct2, THEN conjunct1, rule_format, OF obj]
  note rate = inst [THEN conjunct2, THEN conjunct2, THEN conjunct2, THEN conjunct2, THEN conjunct1,
      rule_format, OF no_rate]
  note chunk = inst [THEN conjunct2, THEN conjunct2, THEN conjunct2, THEN conjunct2, THEN conjunct2,
      THEN conjunct1, rule_format, OF no_chunk]
  note mute = inst [THEN conjunct2, THEN conjunct2, THEN conjunct2, THEN conjunct2, THEN conjunct2,
      THEN conjunct2, THEN conjunct1, rule_format, OF no_mute]
  note stereo = inst [THEN conjunct2, THEN conjunct2, THEN conjunct2, THEN conjunct2, THEN conjunct2,
      THEN conjunct2, THEN conjunct2, THEN conjunct1, rule_format, OF no_stereo]
  note gain = inst [THEN conjunct2, THEN conjunct2, THEN conjunct2, THEN conjunct2, THEN conjunct2,
      THEN conjunct2, THEN conjunct2, THEN conjunct2, THEN conjunct1, rule_format, OF no_gain]
  note dev = inst [THEN conjunct2, THEN conjunct2, THEN conjunct2, THEN conjunct2, THEN conjunct2,
      THEN conjunct2, THEN conjunct2, THEN conjunct2, THEN conjunct2, THEN conjunct2,
      THEN conjunct2, THEN conjunct2, THEN conjunct2, THEN conjunct2, THEN conjunct2,
      THEN conjunct2, THEN conjunct2, THEN conjunct1, rule_format, OF g_dev]
  have sys: "system_audio_options options =
      \<lparr>arg_sampleRate = 0, arg_chunkDurationMs = 0x4069000000000000, arg_mute = False,
       arg_isMono = True, arg_includeProcesses = Some [42, 7], arg_includeProcessCount = 2,
       arg_excludeProcesses = Some [9], arg_excludeProcessCount = 1\<rparr>"
    using inc exc rate chunk mute stereo nums
    by (cases "system_audio_options options") (simp add: conv)
  have mic: "microphone_options options =
      \<lparr>mic_sampleRate = 0, mic_chunkDurationMs = 0x4069000000000000, mic_isMono = True,
       mic_deviceUID = Some ''BuiltInMic'', mic_gain = 0x3FF0000000000000\<rparr>"
    using rate chunk stereo gain dev nums
    by (cases "microphone_options options") (simp add: c_str_def)
  from obj no_rate g_exc rec show ?thesis
    unfolding sys mic unfolding options_def by simp
qed

section \<open>Device enumeration results\<close>

lemma ListDevices_empty:
  "coreaudio_list_devices c = ((result, devices, count), c1) \<Longrightarrow>
   result \<noteq> 0 \<or> devices = 0 \<or> count = 0 \<Longrightarrow>
   ListDevices coreaudio_list_devices free memory_of c = (Inr (JArray []), c1)"
  by (simp add: ListDevices_def)

lemma ListDevices_nonempty:
  "coreaudio_list_devices c = ((0, devices, count), c1) \<Longrightarrow> devices \<noteq> 0 \<Longrightarrow> count \<noteq> 0 \<Longrightarrow>
   ListDevices coreaudio_list_devices free memory_of c =
     (Inr (JArray (device_loop (memory_of c1) devices count)), free devices count c1)"
  by (simp add: ListDevices_def)

lemma device_object_fields:
  "device_object mem base =
     JObject
       [(''id'', JString (if load_pointer mem base = 0 then []
                          else c_string_at mem (load_pointer mem base))),
        (''name'', JString (if load_pointer mem (base + 8) = 0 then []
                            else c_string_at mem (load_pointer mem (base + 8)))),
        (''manufacturer'', JString (if load_pointer mem (base + 16) = 0 then []
                                    else c_string_at mem (load_pointer mem (base + 16)))),
        (''isDefault'', JBoolean (byte_at mem (base + 24) \<noteq> 0)),
        (''isInput'', JBoolean (byte_at mem (base + 25) \<noteq> 0)),
        (''isOutput'', JBoolean (byte_at mem (base + 26) \<noteq> 0)),
        (''sampleRate'', JNumber (load_double mem (base + 32))),
        (''channelCount'', JNumber (double_of_nat (unat (load_uint32 mem (base + 40)))))]"
  by (simp add: device_object_def string_or_empty_def load_bool_def Let_def)

lemma layout_offsets:
  "map (offset_of device_layout)
     [''uid'', ''name'', ''manufacturer'', ''isDefault'', ''isInput'', ''isOutput'',
      ''sampleRate'', ''channelCount'']
   = [0, 8, 16, 24, 25, 26, 32, 40]
   \<and> sum_list (map snd device_layout) = structSize"
  by (simp add: device_layout_def structSize_def)

lemma length_le_bytes: "length (le_bytes n v) = n"
  by (induction n arbitrary: v) simp_all

lemma unat_byte_of_nat: "unat (of_nat v :: uint8) = v mod 256"
  by (simp add: unat_of_nat)

lemma from_le_le_bytes: "from_le (le_bytes n v) = v mod 256 ^ n"
proof (induction n arbitrary: v)
  case 0
  then show ?case by simp
next
  case (Suc n)
  have "v mod (256 * 256 ^ n) = 256 * (v div 256 mod 256 ^ n) + v mod 256"
    by (rule mod_mult2_eq)
  with Suc show ?case by (simp add: unat_byte_of_nat)
qed

lemma load_le_from_le:
  "load_le mem a n = from_le (map (\<lambda>j. byte_at mem (a + of_nat j)) [0..<n])"
proof (induction n arbitrary: a)
  case 0
  then show ?case by simp
next
  case (Suc n)
  have "map (\<lambda>j. byte_at mem (a + of_nat j)) [0..<Suc n] =
        byte_at mem a # map (\<lambda>j. byte_at mem (a + 1 + of_nat j)) [0..<n]"
    by (simp add: upt_conv_Cons map_Suc_upt [symmetric] add.assoc del: upt_Suc)
  with Suc show ?case by simp
qed

lemma length_encode_device: "length (encode_device d) = 48"
  by (simp add: encode_device_def length_le_bytes)

lemma concat_blocks_nth:
  "\<forall>x \<in> set xs. length (f x) = m \<Longrightarrow> i < length xs \<Longrightarrow> k < m \<Longrightarrow>
   concat (map f xs) ! (i * m + k) = f (xs ! i) ! k"
proof (induction xs arbitrary: i)
  case Nil
  then show ?case by simp
next
  case (Cons x xs)
  show ?case
  proof (cases i)
    case 0
    with Cons.prems show ?thesis by (simp add: nth_append)
  next
    case (Suc j)
    with Cons.prems have "concat (map f xs) ! (j * m + k) = f (xs ! j) ! k"
      using Cons.IH [of j] by simp
    with Suc Cons.prems show ?thesis by (simp add: nth_append)
  qed
qed


lemma field_load:
  assumes bytes: "\<forall>k<48. byte_at mem (base + of_nat k) = encode_device d ! k"
    and fits: "off + n \<le> 48"
  shows "load_le mem (base + of_nat off) n = from_le (take n (drop off (encode_device d)))"
proof -
  have "map (\<lambda>j. byte_at mem (base + of_nat off + of_nat j)) [0..<n]
        = take n (drop off (encode_device d))"
  proof (rule nth_equalityI)
    show "length (map (\<lambda>j. byte_at mem (base + of_nat off + of_nat j)) [0..<n])
          = length (take n (drop off (encode_device d)))"
      using fits by (simp add: length_encode_device)
  next
    fix j
    assume "j < length (map (\<lambda>j. byte_at mem (base + of_nat off + of_nat j)) [0..<n])"
    then have j: "j < n" by simp
    with fits have "off + j < 48" by simp
    with bytes have "byte_at mem (base + of_nat (off + j)) = encode_device d ! (off + j)"
      by blast
    with j fits show "map (\<lambda>j. byte_at mem (base + of_nat off + of_nat j)) [0..<n] ! j
          = take n (drop off (encode_device d)) ! j"
      by (simp add: length_encode_device add.assoc)
  qed
  then show ?thesis by (simp add: load_le_from_le)
qed

lemma word64_of_bytes: "of_nat (unat (v :: 64 word) mod 18446744073709551616) = v"
proof -
  have "unat v < 2 ^ 64" using unsigned_less [of v, where 'a = nat] by simp
  then have "unat v mod 18446744073709551616 = unat v" by simp
  then show ?thesis by simp
qed

lemma word32_of_bytes: "of_nat (unat (v :: 32 word) mod 4294967296) = v"
proof -
  have "unat v < 2 ^ 32" using unsigned_less [of v, where 'a = nat] by simp
  then have "unat v mod 4294967296 = unat v" by simp
  then show ?thesis by simp
qed

lemma encode_device_fields:
  "take 8 (drop 0 (encode_device d)) = le_bytes 8 (unat (dev_uid d))"
  "take 8 (drop 8 (encode_device d)) = le_bytes 8 (unat (dev_name d))"
  "take 8 (drop 16 (encode_device d)) = le_bytes 8 (unat (dev_manufacturer d))"
  "encode_device d ! 24 = bool_byte (dev_isDefault d)"
  "encode_device d ! 25 = bool_byte (dev_isInput d)"
  "encode_device d ! 26 = bool_byte (dev_isOutput d)"
  "take 8 (drop 32 (encode_device d)) = le_bytes 8 (unat (dev_sampleRate d))"
  "take 4 (drop 40 (encode_device d)) = le_bytes 4 (unat (dev_channelCount d))"
  by (simp_all add: encode_device_def length_le_bytes nth_append)

lemma device_object_of_encoded:
  assumes bytes: "\<forall>k<48. byte_at mem (base + of_nat k) = encode_device d ! k"
  shows "device_object mem base = device_descriptor mem d"
proof -
  have uid: "load_pointer mem base = dev_uid d"
    using field_load [OF bytes, of 0 8] encode_device_fields(1) [of d]
    by (simp add: load_pointer_def from_le_le_bytes word64_of_bytes)
  have name: "load_pointer mem (base + 8) = dev_name d"
    using field_load [OF bytes, of 8 8]
    by (simp add: load_pointer_def encode_device_fields from_le_le_bytes word64_of_bytes)
  have manu: "load_pointer mem (base + 16) = dev_manufacturer d"
    using field_load [OF bytes, of 16 8]
    by (simp add: load_pointer_def encode_device_fields from_le_le_bytes word64_of_bytes)
  have rate: "load_double mem (base + 32) = dev_sampleRate d"
    using field_load [OF bytes, of 32 8]
    by (simp add: load_double_def encode_device_fields from_le_le_bytes word64_of_bytes)
  have chan: "load_uint32 mem (base + 40) = dev_channelCount d"
    using field_load [OF bytes, of 40 4]
    by (simp add: load_uint32_def encode_device_fields from_le_le_bytes word32_of_bytes)
  have b24: "byte_at mem (base + 24) = bool_byte (dev_isDefault d)"
    using bytes [rule_format, of 24] by (simp add: encode_device_fields)
  have b25: "byte_at mem (base + 25) = bool_byte (dev_isInput d)"
    using bytes [rule_format, of 25] by (simp add: encode_device_fields)
  have b26: "byte_at mem (base + 26) = bool_byte (dev_isOutput d)"
    using bytes [rule_format, of 26] by (simp add: encode_device_fields)
  show ?thesis
    by (simp add: device_object_fields device_descriptor_def uid name manu rate chan
        b24 b25 b26 bool_byte_def)
qed

lemma device_loop_of_stored:
  assumes st: "stored_devices mem devices ds"
  shows "map (\<lambda>i. device_object mem (devices + of_nat (i * 48))) [0..<length ds]
         = map (device_descriptor mem) ds"
proof (rule nth_equalityI)
  show "length (map (\<lambda>i. device_object mem (devices + of_nat (i * 48))) [0..<length ds])
        = length (map (device_descriptor mem) ds)"
    by simp
next
  fix i
  assume "i < length (map (\<lambda>i. device_object mem (devices + of_nat (i * 48))) [0..<length ds])"
  then have i: "i < length ds" by simp
  have "\<forall>k<48. byte_at mem (devices + of_nat (i * 48) + of_nat k) = encode_device (ds ! i) ! k"
  proof (intro allI impI)
    fix k :: nat
    assume k: "k < 48"
    with i have "i * 48 + k < 48 * length ds" by simp
    with st have "byte_at mem (devices + of_nat (i * 48 + k))
        = concat (map encode_device ds) ! (i * 48 + k)"
      unfolding stored_devices_def by blast
    also have "\<dots> = encode_device (ds ! i) ! k"
      using concat_blocks_nth [of ds encode_device 48 i k] i k
      by (simp add: length_encode_device)
    finally show "byte_at mem (devices + of_nat (i * 48) + of_nat k) = encode_device (ds ! i) ! k"
      by (simp add: add.assoc)
  qed
  then have "device_object mem (devices + of_nat (i * 48)) = device_descriptor mem (ds ! i)"
    by (rule device_object_of_encoded)
  with i show "map (\<lambda>i. device_object mem (devices + of_nat (i * 48))) [0..<length ds] ! i
        = map (device_descriptor mem) ds ! i"
    by simp
qed


lemma length_concat_encode: "length (concat (map encode_device ds)) = 48 * length ds"
  by (induction ds) (simp_all add: length_encode_device)

lemma stored_place_bytes:
  assumes "48 * length ds < 2 ^ 64"
  shows "stored_devices
           \<lparr>byte_at = place_bytes base (concat (map encode_device ds)), c_string_at = cs\<rparr>
           base ds"
  unfolding stored_devices_def
proof (intro allI impI)
  fix k :: nat
  assume k: "k < 48 * length ds"
  with assms have "k < 2 ^ 64" by simp
  then have "unat (of_nat k :: 64 word) = k" by (simp add: unat_of_nat)
  then have "unat (base + of_nat k - base) = k" by simp
  with k show "byte_at \<lparr>byte_at = place_bytes base (concat (map encode_device ds)), c_string_at = cs\<rparr>
                 (base + of_nat k) = concat (map encode_device ds) ! k"
    by (simp add: place_bytes_def length_concat_encode)
qed

lemma example_record_bytes:
  "encode_device (example_devices ! 0) =
     [0x00, 0x20, 0, 0, 0, 0, 0, 0,  0x10, 0x20, 0, 0, 0, 0, 0, 0,  0, 0, 0, 0, 0, 0, 0, 0,
      1, 1, 0,  0, 0, 0, 0, 0,  0, 0, 0, 0, 0, 0x70, 0xE7, 0x40,  2, 0, 0, 0,  0, 0, 0, 0]"
proof -
  have n8: "(8::nat) = Suc (Suc (Suc (Suc (Suc (Suc (Suc (Suc 0)))))))"
    and n4: "(4::nat) = Suc (Suc (Suc (Suc 0)))"
    and n5: "(5::nat) = Suc (Suc (Suc (Suc (Suc 0))))"
    by simp_all
  show ?thesis
    unfolding encode_device_def
    by (subst n8, subst n8, subst n8, subst n8, subst n4, subst n4, subst n5)
       (simp add: example_devices_def bool_byte_def)
qed

lemma example_stored: "stored_devices example_memory 0x1000 example_devices"
  unfolding example_memory_def
  by (rule stored_place_bytes) (simp add: example_devices_def)

text \<open>
  Claim C6. When the collaborator answers status 0 with a non-null array of \<open>count > 0\<close>
  records, \<open>ListDevices\<close> returns one object per record, the record \<open>i\<close> being read at
  \<open>devices + 48 * i\<close> from the memory as the collaborator left it, and the final state
  is that memory's state after one call of the free function with the same pointer and
  count. An object's fields are read at the offsets 0, 8, 16 (text pointers, a null
  pointer giving the empty string), 24, 25, 26 (flags), 32 (sample rate) and 40 (channel
  count); these are the offsets of the layout that the header documents, whose sizes sum
  to 48. So whenever the array holds \<open>count\<close> records in that layout, the result is the
  descriptors of exactly those records, in order. With count 0 the result is the empty
  array and no error, in the state the collaborator left.
\<close>

theorem list_devices_decodes_records:
  assumes "coreaudio_list_devices c = ((0, devices, count), c1)"
    and "devices \<noteq> 0" and "0 < sint count"
  shows "fst (ListDevices coreaudio_list_devices free memory_of c) =
           Inr (JArray (map (\<lambda>i. device_object (memory_of c1) (devices + of_nat (i * 48)))
                            [0..<nat (sint count)]))
         \<and> snd (ListDevices coreaudio_list_devices free memory_of c) = free devices count c1
         \<and> (\<forall>mem base. device_object mem base =
              JObject
                [(''id'', JString (if load_pointer mem base = 0 then []
                                   else c_string_at mem (load_pointer mem base))),
                 (''name'', JString (if load_pointer mem (base + 8) = 0 then []
                                     else c_string_at mem (load_pointer mem (base + 8)))),
                 (''manufacturer'', JString (if load_pointer mem (base + 16) = 0 then []
                                             else c_string_at mem (load_pointer mem (base + 16)))),
                 (''isDefault'', JBoolean (byte_at mem (base + 24) \<noteq> 0)),
                 (''isInput'', JBoolean (byte_at mem (base + 25) \<noteq> 0)),
                 (''isOutput'', JBoolean (byte_at mem (base + 26) \<noteq> 0)),
                 (''sampleRate'', JNumber (load_double mem (base + 32))),
                 (''channelCount'', JNumber (double_of_nat (unat (load_uint32 mem (base + 40)))))])
         \<and> map (offset_of device_layout)
              [''uid'', ''name'', ''manufacturer'', ''isDefault'', ''isInput'', ''isOutput'',
               ''sampleRate'', ''channelCount'']
            = [0, 8, 16, 24, 25, 26, 32, 40]
         \<and> sum_list (map snd device_layout) = structSize
         \<and> (\<forall>ds. stored_devices (memory_of c1) devices ds \<and> length ds = nat (sint count) \<longrightarrow>
              fst (ListDevices coreaudio_list_devices free memory_of c) =
                Inr (JArray (map (device_descriptor (memory_of c1)) ds)))
         \<and> (\<forall>list0 c0 d0 c2. list0 c0 = ((0, d0, 0), c2) \<longrightarrow>
              ListDevices list0 free memory_of c0 = (Inr (JArray []), c2))"
proof -
  from assms(3) have nz: "count \<noteq> 0" by auto
  have a: "ListDevices coreaudio_list_devices free memory_of c =
     (Inr (JArray (device_loop (memory_of c1) devices count)), free devices count c1)"
    using assms(1) assms(2) nz by (simp add: ListDevices_def)
  have z: "\<forall>list0 c0 d0 c2. list0 c0 = ((0, d0, 0), c2) \<longrightarrow>
              ListDevices list0 free memory_of c0 = (Inr (JArray []), c2)"
    by (simp add: ListDevices_def)
  have r: "\<forall>ds. stored_devices (memory_of c1) devices ds \<and> length ds = nat (sint count) \<longrightarrow>
              device_loop (memory_of c1) devices count = map (device_descriptor (memory_of c1)) ds"
  proof (intro allI impI)
    fix ds
    assume h: "stored_devices (memory_of c1) devices ds \<and> length ds = nat (sint count)"
    then have "map (\<lambda>i. device_object (memory_of c1) (devices + of_nat (i * 48))) [0..<length ds]
         = map (device_descriptor (memory_of c1)) ds"
      using device_loop_of_stored by blast
    with h show "device_loop (memory_of c1) devices count = map (device_descriptor (memory_of c1)) ds"
      by (simp add: device_loop_def structSize_def)
  qed
  have l: "device_loop (memory_of c1) devices count =
      map (\<lambda>i. device_object (memory_of c1) (devices + of_nat (i * 48))) [0..<nat (sint count)]"
    by (simp add: device_loop_def structSize_def)
  show ?thesis
    unfolding a fst_conv snd_conv
    using device_object_fields layout_offsets z r l
    by (intro conjI) simp_all
qed

theorem list_devices_decodes_records_witness:
  "scripted_list_devices \<lparr>list_answer = (0, 0x1000, 2), enum_memory = example_memory, freed = []\<rparr>
     = ((0, 0x1000, 2), \<lparr>list_answer = (0, 0x1000, 2), enum_memory = example_memory, freed = []\<rparr>)
   \<and> (0x1000 :: pointer) \<noteq> 0 \<and> 0 < sint (2 :: int32)
   \<and> stored_devices example_memory 0x1000 example_devices
   \<and> length example_devices = nat (sint (2 :: int32))
   \<and> ListDevices scripted_list_devices scripted_free_device_list enum_memory
         \<lparr>list_answer = (0, 0x1000, 2), enum_memory = example_memory, freed = []\<rparr>
       = (Inr (JArray
            [JObject
               [(''id'', JString ''BuiltInMicrophoneDevice''),
                (''name'', JString ''MacBook Pro Microphone''),
                (''manufacturer'', JString []), (''isDefault'', JBoolean True),
                (''isInput'', JBoolean True), (''isOutput'', JBoolean False),
                (''sampleRate'', JNumber 0x40E7700000000000),
                (''channelCount'', JNumber 0x4000000000000000)],
             JObject
               [(''id'', JString ''BuiltInSpeakerDevice''), (''name'', JString []),
                (''manufacturer'', JString ''Apple Inc.''), (''isDefault'', JBoolean False),
                (''isInput'', JBoolean False), (''isOutput'', JBoolean True),
                (''sampleRate'', JNumber 0x40E5888000000000),
                (''channelCount'', JNumber 0x3FF0000000000000)]]),
          \<lparr>list_answer = (0, 0x1000, 2), enum_memory = zero_memory, freed = [(0x1000, 2)]\<rparr>)"
proof -
  have h1: "scripted_list_devices \<lparr>list_answer = (0, 0x1000, 2), enum_memory = example_memory, freed = []\<rparr>
     = ((0, 0x1000, 2), \<lparr>list_answer = (0, 0x1000, 2), enum_memory = example_memory, freed = []\<rparr>)"
    by (simp add: scripted_list_devices_def)
  have h2: "(0x1000 :: pointer) \<noteq> 0" by simp
  have h3: "0 < sint (2 :: int32)" by simp
  have h4: "stored_devices example_memory 0x1000 example_devices" by (rule example_stored)
  have h5: "length example_devices = nat (sint (2 :: int32))" by (simp add: example_devices_def)
  note inst = list_devices_decodes_records [where coreaudio_list_devices = scripted_list_devices and devices = "0x1000"
      and count = 2 and free = scripted_free_device_list and memory_of = enum_memory
      and c = "\<lparr>list_answer = (0, 0x1000, 2), enum_memory = example_memory, freed = []\<rparr>"
      and ?c1.0 = "\<lparr>list_answer = (0, 0x1000, 2), enum_memory = example_memory, freed = []\<rparr>",
      OF h1 h2 h3]
  have rt: "stored_devices example_memory 0x1000 example_devices
        \<and> length example_devices = nat (sint (2 :: int32)) \<longrightarrow>
      fst (ListDevices scripted_list_devices scripted_free_device_list enum_memory
         \<lparr>list_answer = (0, 0x1000, 2), enum_memory = example_memory, freed = []\<rparr>)
       = Inr (JArray (map (device_descriptor example_memory) example_devices))"
    using inst [THEN conjunct2, THEN conjunct2, THEN conjunct2, THEN conjunct2, THEN conjunct2,
        THEN conjunct1, rule_format, of example_devices]
    by simp
  have arr: "fst (ListDevices scripted_list_devices scripted_free_device_list enum_memory
         \<lparr>list_answer = (0, 0x1000, 2), enum_memory = example_memory, freed = []\<rparr>)
       = Inr (JArray (map (device_descriptor example_memory) example_devices))"
    using rt h4 h5 by blast
  have st: "snd (ListDevices scripted_list_devices scripted_free_device_list enum_memory
         \<lparr>list_answer = (0, 0x1000, 2), enum_memory = example_memory, freed = []\<rparr>)
       = \<lparr>list_answer = (0, 0x1000, 2), enum_memory = zero_memory, freed = [(0x1000, 2)]\<rparr>"
    using inst [THEN conjunct2, THEN conjunct1] by (simp add: scripted_free_device_list_def)
  have objs: "map (device_descriptor example_memory) example_devices =
            [JObject
               [(''id'', JString ''BuiltInMicrophoneDevice''),
                (''name'', JString ''MacBook Pro Microphone''),
                (''manufacturer'', JString []), (''isDefault'', JBoolean True),
                (''isInput'', JBoolean True), (''isOutput'', JBoolean False),
                (''sampleRate'', JNumber 0x40E7700000000000),
                (''channelCount'', JNumber 0x4000000000000000)],
             JObject
               [(''id'', JString ''BuiltInSpeakerDevice''), (''name'', JString []),
                (''manufacturer'', JString ''Apple Inc.''), (''isDefault'', JBoolean False),
                (''isInput'', JBoolean False), (''isOutput'', JBoolean True),
                (''sampleRate'', JNumber 0x40E5888000000000),
                (''channelCount'', JNumber 0x3FF0000000000000)]]"
    by (simp add: example_devices_def device_descriptor_def example_memory_def example_strings_def
        double_of_nat_def bit_length.simps Let_def)
  from h1 h2 h3 h4 h5 arr st show ?thesis
    by (simp add: prod_eq_iff objs)
qed

text \<open>
  Claim C10. When the collaborator's status is not zero or its array pointer is null,
  \<open>ListDevices\<close> returns the empty array without an error, in the state the
  collaborator left (the free function is not applied); the returned value is the one
  returned for a collaborator that reports zero devices.
\<close>

theorem list_devices_failure_returns_empty:
  assumes "coreaudio_list_devices c = ((result, devices, count), c1)"
    and "result \<noteq> 0 \<or> devices = 0"
  shows "ListDevices coreaudio_list_devices free memory_of c = (Inr (JArray []), c1)
         \<and> (\<forall>list0 c0 c2. list0 c0 = ((0, 0, 0), c2) \<longrightarrow>
               fst (ListDevices list0 free memory_of c0)
                 = fst (ListDevices coreaudio_list_devices free memory_of c))"
  using assms by (auto simp add: ListDevices_def)

theorem list_devices_failure_returns_empty_witness:
  "scripted_list_devices \<lparr>list_answer = (- 1, 0x1000, 2), enum_memory = example_memory, freed = []\<rparr>
     = ((- 1, 0x1000, 2), \<lparr>list_answer = (- 1, 0x1000, 2), enum_memory = example_memory, freed = []\<rparr>)
   \<and> (- 1 :: int32) \<noteq> 0
   \<and> ListDevices scripted_list_devices scripted_free_device_list enum_memory
         \<lparr>list_answer = (- 1, 0x1000, 2), enum_memory = example_memory, freed = []\<rparr>
       = (Inr (JArray []),
          \<lparr>list_answer = (- 1, 0x1000, 2), enum_memory = example_memory, freed = []\<rparr>)"
proof -
  have h1: "scripted_list_devices \<lparr>list_answer = (- 1, 0x1000, 2), enum_memory = example_memory, freed = []\<rparr>
     = ((- 1, 0x1000, 2), \<lparr>list_answer = (- 1, 0x1000, 2), enum_memory = example_memory, freed = []\<rparr>)"
    by (simp add: scripted_list_devices_def)
  have h2: "(- 1 :: int32) \<noteq> 0 \<or> (0x1000 :: pointer) = 0" by simp
  note inst = list_devices_failure_returns_empty [where coreaudio_list_devices = scripted_list_devices and devices = "0x1000"
      and count = 2 and result = "- 1" and free = scripted_free_device_list
      and memory_of = enum_memory
      and c = "\<lparr>list_answer = (- 1, 0x1000, 2), enum_memory = example_memory, freed = []\<rparr>"
      and ?c1.0 = "\<lparr>list_answer = (- 1, 0x1000, 2), enum_memory = example_memory, freed = []\<rparr>",
      OF h1 h2]
  from h1 h2 inst [THEN conjunct1] show ?thesis by simp
qed

section \<open>Permission request results\<close>

lemma fold_max_ge: "x \<in> set xs \<Longrightarrow> x \<le> fold max xs (m::nat)"
proof (induction xs arbitrary: m)
  case Nil
  then show ?case by simp
next
  case (Cons y ys)
  have mono: "m' \<le> fold max ys (m'::nat)" for m'
    by (induction ys arbitrary: m') (auto intro: order_trans [OF max.cobounded2])
  from Cons show ?case
  proof (cases "x = y")
    case True
    have "y \<le> max y m" by simp
    also have "\<dots> \<le> fold max ys (max y m)" by (rule mono)
    finally show ?thesis using True by simp
  next
    case False
    with Cons.prems have "x \<in> set ys" by simp
    then show ?thesis using Cons.IH by simp
  qed
qed

lemma new_address_fresh: "new_address heap \<notin> fst ` set heap" and new_address_nonnull: "new_address heap \<noteq> 0"
proof -
  show "new_address heap \<notin> fst ` set heap"
  proof
    assume "new_address heap \<in> fst ` set heap"
    then have "new_address heap \<in> set (map fst heap)" by simp
    then have "new_address heap \<le> fold max (map fst heap) 0" by (rule fold_max_ge)
    then show False by (simp add: new_address_def)
  qed
  show "new_address heap \<noteq> 0" by (simp add: new_address_def)
qed

lemma map_of_fresh: "a \<notin> fst ` set heap \<Longrightarrow> map_of heap a = None"
  by (simp add: map_of_eq_None_iff)

lemma filter_fresh: "a \<notin> fst ` set heap \<Longrightarrow> filter (\<lambda>e. fst e \<noteq> a) heap = heap"
  by (induction heap) auto


lemma RequestPermission_function:
  "RequestPermission (JFunction f # rest) st =
     (Inr JUndefined,
      st\<lparr>contexts := (new_address (contexts st), \<lparr>tsfn_callback = f, tsfn_threads = 1\<rparr>) # contexts st,
         requested := requested st @ [new_address (contexts st)]\<rparr>)"
  by (simp add: RequestPermission_def Let_def)

lemma callback_on_newest:
  assumes "contexts s = (a, \<lparr>tsfn_callback = f, tsfn_threads = 1\<rparr>) # heap"
    and "a \<notin> fst ` set heap"
  shows "PermissionRequestCallback g a s =
     Some (s\<lparr>host_calls := host_calls s @ [(f, [JBoolean g])],
              finalized := finalized s @ [f], contexts := heap\<rparr>)"
  using assms by (simp add: PermissionRequestCallback_def filter_fresh)

lemma callback_on_second:
  assumes "contexts s = (b, t) # (a, \<lparr>tsfn_callback = f, tsfn_threads = 1\<rparr>) # heap"
    and "a \<notin> fst ` set heap" and "b \<noteq> a"
  shows "PermissionRequestCallback g a s =
     Some (s\<lparr>host_calls := host_calls s @ [(f, [JBoolean g])],
              finalized := finalized s @ [f], contexts := (b, t) # heap\<rparr>)"
  using assms by (simp add: PermissionRequestCallback_def filter_fresh)

text \<open>
  Claim C7. A request with a host function allocates a context at a non-null address that
  no live context has, and hands it to the collaborator. The native completion callback
  for that context queues exactly one host call, of that request's function with the
  granted flag, finalizes its thread-safe function once and deletes the context, leaving
  the live contexts as they were before the request. Two requests get distinct contexts;
  whichever of the two completions comes first, each function is called once with its own
  flag and both contexts are gone afterwards.
\<close>

theorem permission_callback_once_per_request:
  "let ctx1 = new_address (contexts st);
       st1 = snd (RequestPermission (JFunction f1 # rest1) st);
       ctx2 = new_address (contexts st1);
       st2 = snd (RequestPermission (JFunction f2 # rest2) st1)
   in fst (RequestPermission (JFunction f1 # rest1) st) = Inr JUndefined
      \<and> ctx1 \<notin> fst ` set (contexts st) \<and> ctx1 \<noteq> 0 \<and> ctx2 \<noteq> ctx1 \<and> ctx2 \<noteq> 0
      \<and> ctx2 \<notin> fst ` set (contexts st)
      \<and> requested st1 = requested st @ [ctx1] \<and> requested st2 = requested st @ [ctx1, ctx2]
      \<and> host_calls st2 = host_calls st
      \<and> PermissionRequestCallback g1 ctx1 st1 =
          Some (st1\<lparr>host_calls := host_calls st @ [(f1, [JBoolean g1])],
                    finalized := finalized st @ [f1], contexts := contexts st\<rparr>)
      \<and> Option.bind (PermissionRequestCallback g1 ctx1 st2) (PermissionRequestCallback g2 ctx2) =
          Some (st2\<lparr>host_calls := host_calls st @ [(f1, [JBoolean g1]), (f2, [JBoolean g2])],
                    finalized := finalized st @ [f1, f2], contexts := contexts st\<rparr>)
      \<and> Option.bind (PermissionRequestCallback g2 ctx2 st2) (PermissionRequestCallback g1 ctx1) =
          Some (st2\<lparr>host_calls := host_calls st @ [(f2, [JBoolean g2]), (f1, [JBoolean g1])],
                    finalized := finalized st @ [f2, f1], contexts := contexts st\<rparr>)"
proof -
  define ctx1 where "ctx1 = new_address (contexts st)"
  define t1 where "t1 = \<lparr>tsfn_callback = f1, tsfn_threads = 1\<rparr>"
  define t2 where "t2 = \<lparr>tsfn_callback = f2, tsfn_threads = 1\<rparr>"
  define st1 where "st1 = st\<lparr>contexts := (ctx1, t1) # contexts st, requested := requested st @ [ctx1]\<rparr>"
  define ctx2 where "ctx2 = new_address (contexts st1)"
  define st2 where "st2 = st1\<lparr>contexts := (ctx2, t2) # contexts st1, requested := requested st1 @ [ctx2]\<rparr>"
  have r1: "RequestPermission (JFunction f1 # rest1) st = (Inr JUndefined, st1)"
    by (simp add: RequestPermission_function st1_def ctx1_def t1_def)
  have r2: "RequestPermission (JFunction f2 # rest2) st1 = (Inr JUndefined, st2)"
    by (simp add: RequestPermission_function st2_def ctx2_def t2_def)
  have f1: "ctx1 \<notin> fst ` set (contexts st)" and n1: "ctx1 \<noteq> 0"
    unfolding ctx1_def by (rule new_address_fresh, rule new_address_nonnull)
  have f2: "ctx2 \<notin> fst ` set (contexts st1)" and n2: "ctx2 \<noteq> 0"
    unfolding ctx2_def by (rule new_address_fresh, rule new_address_nonnull)
  have c1: "contexts st1 = (ctx1, t1) # contexts st" by (simp add: st1_def)
  have c2: "contexts st2 = (ctx2, t2) # (ctx1, t1) # contexts st" by (simp add: st2_def st1_def)
  from f2 c1 have d: "ctx2 \<noteq> ctx1" and f2': "ctx2 \<notin> fst ` set (contexts st)" by auto
  have single: "PermissionRequestCallback g1 ctx1 st1 =
          Some (st1\<lparr>host_calls := host_calls st @ [(f1, [JBoolean g1])],
                    finalized := finalized st @ [f1], contexts := contexts st\<rparr>)"
    using callback_on_newest [OF c1 [unfolded t1_def] f1, of g1] by (simp add: st1_def)
  have a1: "PermissionRequestCallback g1 ctx1 st2 =
     Some (st2\<lparr>host_calls := host_calls st2 @ [(f1, [JBoolean g1])],
              finalized := finalized st2 @ [f1], contexts := (ctx2, t2) # contexts st\<rparr>)"
    using callback_on_second [OF c2 [unfolded t1_def] f1 d, of g1] .
  have a2: "PermissionRequestCallback g2 ctx2
       (st2\<lparr>host_calls := host_calls st2 @ [(f1, [JBoolean g1])],
              finalized := finalized st2 @ [f1], contexts := (ctx2, t2) # contexts st\<rparr>) =
     Some (st2\<lparr>host_calls := host_calls st @ [(f1, [JBoolean g1]), (f2, [JBoolean g2])],
                    finalized := finalized st @ [f1, f2], contexts := contexts st\<rparr>)"
    by (subst callback_on_newest [where heap = "contexts st" and f = f2])
       (simp_all add: t2_def f2' st2_def st1_def)
  have b1: "PermissionRequestCallback g2 ctx2 st2 =
     Some (st2\<lparr>host_calls := host_calls st2 @ [(f2, [JBoolean g2])],
              finalized := finalized st2 @ [f2], contexts := (ctx1, t1) # contexts st\<rparr>)"
    using callback_on_newest [where heap = "(ctx1, t1) # contexts st" and f = f2 and a = ctx2 and s = st2 and g = g2]
      c2 f2 c1 by (simp add: t2_def)
  have b2: "PermissionRequestCallback g1 ctx1
       (st2\<lparr>host_calls := host_calls st2 @ [(f2, [JBoolean g2])],
              finalized := finalized st2 @ [f2], contexts := (ctx1, t1) # contexts st\<rparr>) =
     Some (st2\<lparr>host_calls := host_calls st @ [(f2, [JBoolean g2]), (f1, [JBoolean g1])],
                    finalized := finalized st @ [f2, f1], contexts := contexts st\<rparr>)"
    by (subst callback_on_newest [where heap = "contexts st" and f = f1])
       (simp_all add: t1_def f1 st2_def st1_def)
  have rq: "requested st1 = requested st @ [ctx1]" "requested st2 = requested st @ [ctx1, ctx2]"
    "host_calls st2 = host_calls st"
    by (simp_all add: st1_def st2_def)
  have ab: "Option.bind (PermissionRequestCallback g1 ctx1 st2) (PermissionRequestCallback g2 ctx2) =
          Some (st2\<lparr>host_calls := host_calls st @ [(f1, [JBoolean g1]), (f2, [JBoolean g2])],
                    finalized := finalized st @ [f1, f2], contexts := contexts st\<rparr>)"
    by (simp add: a1 a2)
  have ba: "Option.bind (PermissionRequestCallback g2 ctx2 st2) (PermissionRequestCallback g1 ctx1) =
          Some (st2\<lparr>host_calls := host_calls st @ [(f2, [JBoolean g2]), (f1, [JBoolean g1])],
                    finalized := finalized st @ [f2, f1], contexts := contexts st\<rparr>)"
    by (simp add: b1 b2)
  show ?thesis
    unfolding Let_def r1 r2 snd_conv fst_conv
    unfolding ctx1_def [symmetric] ctx2_def [symmetric]
    using f1 n1 d n2 f2' rq single ab ba
    by (intro conjI) simp_all
qed


theorem permission_callback_once_per_request_witness:
  "snd (RequestPermission [JFunction 20]
     (snd (RequestPermission [JFunction 10]
        \<lparr>contexts = [], host_calls = [], finalized = [], requested = []\<rparr>)))
     = \<lparr>contexts = [(2, \<lparr>tsfn_callback = 20, tsfn_threads = 1\<rparr>),
                     (1, \<lparr>tsfn_callback = 10, tsfn_threads = 1\<rparr>)],
        host_calls = [], finalized = [], requested = [1, 2]\<rparr>
   \<and> Option.bind
        (PermissionRequestCallback False 2
           \<lparr>contexts = [(2, \<lparr>tsfn_callback = 20, tsfn_threads = 1\<rparr>),
                        (1, \<lparr>tsfn_callback = 10, tsfn_threads = 1\<rparr>)],
            host_calls = [], finalized = [], requested = [1, 2]\<rparr>)
        (PermissionRequestCallback True 1)
     = Some \<lparr>contexts = [],
             host_calls = [(20, [JBoolean False]), (10, [JBoolean True])],
             finalized = [20, 10], requested = [1, 2]\<rparr>"
proof -
  have s2: "snd (RequestPermission [JFunction 20]
     (snd (RequestPermission [JFunction 10]
        \<lparr>contexts = [], host_calls = [], finalized = [], requested = []\<rparr>)))
     = \<lparr>contexts = [(2, \<lparr>tsfn_callback = 20, tsfn_threads = 1\<rparr>),
                     (1, \<lparr>tsfn_callback = 10, tsfn_threads = 1\<rparr>)],
        host_calls = [], finalized = [], requested = [1, 2]\<rparr>"
    by (simp add: RequestPermission_function new_address_def)
  note inst = permission_callback_once_per_request [where st = "\<lparr>contexts = [], host_calls = [], finalized = [], requested = []\<rparr>"
      and ?f1.0 = 10 and ?f2.0 = 20 and ?g1.0 = True and ?g2.0 = False
      and ?rest1.0 = "[]" and ?rest2.0 = "[]", unfolded Let_def s2]
  have "Option.bind
        (PermissionRequestCallback False 2
           \<lparr>contexts = [(2, \<lparr>tsfn_callback = 20, tsfn_threads = 1\<rparr>),
                        (1, \<lparr>tsfn_callback = 10, tsfn_threads = 1\<rparr>)],
            host_calls = [], finalized = [], requested = [1, 2]\<rparr>)
        (PermissionRequestCallback True 1)
     = Some \<lparr>contexts = [],
             host_calls = [(20, [JBoolean False]), (10, [JBoolean True])],
             finalized = [20, 10], requested = [1, 2]\<rparr>"
    using inst by (simp add: RequestPermission_function new_address_def numeral_2_eq_2)
  with s2 show ?thesis by simp
qed

end
